theory Spec2Isabelle
  imports Complex_Main
begin

section \<open>Host objects of the Gamepad API\<close>

text \<open>
  JavaScript numbers are modelled as exact reals and decimal literals as their decimal
  value; the rounding of IEEE doubles and the value NaN are not modelled. Device and
  button indices are natural numbers.

  A \<open>GamepadButton\<close> of a sampled frame and an entry of the manager's stored
  \<open>buttonStates\<close> arrays have the same two fields that the manager reads and writes.
\<close>

record button =
  pressed :: bool
  "value" :: real

record actuator =
  actuatorType :: string

record gamepad =
  index :: nat
  gamepadId :: string
  buttons :: "button list"
  axes :: "real list"
  timestamp :: real
  connected :: bool
  vibrationActuator :: "actuator option"

text \<open>\<open>navigator.getGamepads()\<close>: an array whose slots hold a gamepad or \<open>null\<close>.\<close>

type_synonym navigator = "gamepad option list"

section \<open>Payloads handed to the callback slots\<close>

record connectInfo =
  cn_index :: nat
  cn_id :: string
  cn_buttons :: nat
  cn_axes :: nat
  cn_timestamp :: real

record disconnectInfo =
  dc_index :: nat
  dc_timestamp :: real

record buttonPressInfo =
  bp_index :: nat
  bp_button :: string
  bp_value :: real
  bp_timestamp :: real

record buttonReleaseInfo =
  br_index :: nat
  br_button :: string
  br_timestamp :: real

record axisChangeInfo =
  ac_index :: nat
  ac_value :: real
  ac_rawValue :: real
  ac_name :: string
  ac_timestamp :: real

record buttonEntry =
  be_index :: nat
  be_name :: string
  be_pressed :: bool
  be_value :: real

record axisEntry =
  ae_index :: nat
  ae_name :: string
  ae_value :: real
  ae_rawValue :: real

datatype vibrationInfo = Supported string | NotSupported

record gamepadState =
  gs_index :: nat
  gs_id :: string
  gs_timestamp :: real
  gs_connected :: bool
  gs_buttons :: "buttonEntry list"
  gs_axes :: "axisEntry list"
  gs_vibration :: vibrationInfo

text \<open>One call of a registered handler, with the payload it received.\<close>

datatype event =
    Connect connectInfo
  | Disconnect disconnectInfo
  | Update gamepadState
  | ButtonPress buttonPressInfo
  | ButtonRelease buttonReleaseInfo
  | AxisChange axisChangeInfo

section \<open>The manager object\<close>

text \<open>
  A callback slot holds a handler or \<open>null\<close>; the handlers are external code, so a slot
  is the flag "a handler is registered" and every call of a handler is appended to the
  field \<open>emitted\<close>. Handlers are taken not to call back into the manager.
\<close>

record callbacks =
  onConnect :: bool
  onDisconnect :: bool
  onUpdate :: bool
  onButtonPress :: bool
  onButtonRelease :: bool
  onAxisChange :: bool

text \<open>
  The three \<open>Map\<close> objects are association lists in insertion order. The last three
  fields are the host's side: the calls made to handlers, the animation-frame requests
  that are pending (each one is bound to \<open>() => this.poll()\<close>) and the next handle that
  \<open>requestAnimationFrame\<close> hands out (handles are non-zero).
\<close>

record manager =
  gamepads :: "(nat \<times> gamepad) list"
  activeGamepad :: "nat option"
  isRunning :: bool
  rafId :: "nat option"
  callbacks :: callbacks
  buttonStates :: "(nat \<times> button list) list"
  axisStates :: "(nat \<times> real list) list"
  emitted :: "event list"
  pendingFrames :: "nat list"
  nextHandle :: nat

definition STICK_DEAD_ZONE :: real where
  "STICK_DEAD_ZONE = 0.15"

definition TRIGGER_DEAD_ZONE :: real where
  "TRIGGER_DEAD_ZONE = 0.05"

subsection \<open>JavaScript primitives used by the manager\<close>

text \<open>Truthiness of a field that holds \<open>null\<close> or a number: \<open>null\<close> and \<open>0\<close> are falsy.\<close>

fun truthy :: "nat option \<Rightarrow> bool" where
  "truthy None = False"
| "truthy (Some n) = (n \<noteq> 0)"

text \<open>\<open>Map.prototype.has\<close>, \<open>get\<close>, \<open>set\<close>, \<open>delete\<close>, \<open>keys\<close> and \<open>size\<close>.\<close>

definition map_has :: "(nat \<times> 'v) list \<Rightarrow> nat \<Rightarrow> bool" where
  "map_has m k = (map_of m k \<noteq> None)"

definition map_get :: "(nat \<times> 'v) list \<Rightarrow> nat \<Rightarrow> 'v option" where
  "map_get m k = map_of m k"

fun map_set :: "(nat \<times> 'v) list \<Rightarrow> nat \<Rightarrow> 'v \<Rightarrow> (nat \<times> 'v) list" where
  "map_set [] k v = [(k, v)]"
| "map_set ((k', v') # m) k v = (if k' = k then (k, v) # m else (k', v') # map_set m k v)"

definition map_delete :: "(nat \<times> 'v) list \<Rightarrow> nat \<Rightarrow> (nat \<times> 'v) list" where
  "map_delete m k = filter (\<lambda>e. fst e \<noteq> k) m"

definition map_keys :: "(nat \<times> 'v) list \<Rightarrow> nat list" where
  "map_keys m = map fst m"

definition map_size :: "(nat \<times> 'v) list \<Rightarrow> nat" where
  "map_size m = length m"

text \<open>
  Reading \<open>xs[i] || d\<close> and writing \<open>xs[i] = v\<close> on a JavaScript array. A write past the
  end extends the array; the holes it would leave read as \<open>undefined\<close>, which every
  reader in the manager replaces by its default \<open>d\<close>, so a hole is stored as \<open>d\<close>.
\<close>

definition array_read :: "'a \<Rightarrow> 'a list \<Rightarrow> nat \<Rightarrow> 'a" where
  "array_read d xs i = (if i < length xs then xs ! i else d)"

definition array_write :: "'a \<Rightarrow> 'a list \<Rightarrow> nat \<Rightarrow> 'a \<Rightarrow> 'a list" where
  "array_write d xs i v =
     (if i < length xs then xs[i := v] else xs @ replicate (i - length xs) d @ [v])"

text \<open>The decimal digits of a number, as a template literal prints it.\<close>

fun decimal :: "nat \<Rightarrow> string" where
  "decimal n =
     (if n < 10 then [''0123456789'' ! n]
      else decimal (n div 10) @ [''0123456789'' ! (n mod 10)])"

declare decimal.simps [simp del]

subsection \<open>Names of buttons and axes\<close>

definition buttonMapping :: "(nat \<times> string) list" where
  "buttonMapping =
     [(0, ''A''), (1, ''B''), (2, ''X''), (3, ''Y''), (4, ''LB''), (5, ''RB''),
      (6, ''LT''), (7, ''RT''), (8, ''Back''), (9, ''Start''), (10, ''LS''), (11, ''RS''),
      (12, ''Guide''), (13, ''Share''), (14, ''Touchpad'')]"

definition getButtonName :: "nat \<Rightarrow> nat \<Rightarrow> string" where
  "getButtonName gamepadIndex buttonIndex =
     (case map_of buttonMapping buttonIndex of
        Some name \<Rightarrow> name
      | None \<Rightarrow> ''Btn '' @ decimal buttonIndex)"

definition axisMapping :: "(nat \<times> string) list" where
  "axisMapping =
     [(0, ''LS-X''), (1, ''LS-Y''), (2, ''RS-X''), (3, ''RS-Y''), (4, ''LT''), (5, ''RT'')]"

definition getAxisName :: "nat \<Rightarrow> nat \<Rightarrow> string" where
  "getAxisName gamepadIndex axisIndex =
     (case map_of axisMapping axisIndex of
        Some name \<Rightarrow> name
      | None \<Rightarrow> ''Axis '' @ decimal axisIndex)"

subsection \<open>Calling a handler\<close>

text \<open>\<open>if (this.callbacks.slot) { this.callbacks.slot(payload) }\<close>\<close>

definition dispatch :: "bool \<Rightarrow> event \<Rightarrow> event list" where
  "dispatch slot e = (if slot then [e] else [])"

definition emit :: "event list \<Rightarrow> manager \<Rightarrow> manager" where
  "emit es m = m\<lparr>emitted := emitted m @ es\<rparr>"

section \<open>Device registry\<close>

definition releasedButton :: button where
  "releasedButton = \<lparr>pressed = False, value = 0\<rparr>"

definition initializeButtonStates :: "nat \<Rightarrow> gamepad \<Rightarrow> manager \<Rightarrow> manager" where
  "initializeButtonStates idx gp m =
     (let m1 = (if \<not> map_has (buttonStates m) idx
                then m\<lparr>buttonStates := map_set (buttonStates m) idx []\<rparr> else m);
          states = replicate (length (buttons gp)) releasedButton
      in m1\<lparr>buttonStates := map_set (buttonStates m1) idx states\<rparr>)"

definition initializeAxisStates :: "nat \<Rightarrow> gamepad \<Rightarrow> manager \<Rightarrow> manager" where
  "initializeAxisStates idx gp m =
     (let m1 = (if \<not> map_has (axisStates m) idx
                then m\<lparr>axisStates := map_set (axisStates m) idx []\<rparr> else m);
          states = replicate (length (axes gp)) 0
      in m1\<lparr>axisStates := map_set (axisStates m1) idx states\<rparr>)"

text \<open>The argument is \<open>event.gamepad\<close>.\<close>

definition handleGamepadConnected :: "gamepad \<Rightarrow> manager \<Rightarrow> manager" where
  "handleGamepadConnected gp m =
     (let m1 = m\<lparr>gamepads := map_set (gamepads m) (index gp) gp\<rparr>;
          m2 = (if \<not> truthy (activeGamepad m1)
                then m1\<lparr>activeGamepad := Some (index gp)\<rparr> else m1);
          m3 = initializeButtonStates (index gp) gp m2;
          m4 = initializeAxisStates (index gp) gp m3
      in emit (dispatch (onConnect (callbacks m4))
                 (Connect \<lparr>cn_index = index gp, cn_id = gamepadId gp,
                           cn_buttons = length (buttons gp), cn_axes = length (axes gp),
                           cn_timestamp = timestamp gp\<rparr>)) m4)"

definition handleGamepadDisconnected :: "gamepad \<Rightarrow> manager \<Rightarrow> manager" where
  "handleGamepadDisconnected gp m =
     (let idx = index gp;
          m1 = m\<lparr>gamepads := map_delete (gamepads m) idx,
                 buttonStates := map_delete (buttonStates m) idx,
                 axisStates := map_delete (axisStates m) idx\<rparr>;
          m2 = (if activeGamepad m1 = Some idx
                then m1\<lparr>activeGamepad :=
                         (if map_size (gamepads m1) > 0
                          then Some (hd (map_keys (gamepads m1))) else None)\<rparr>
                else m1)
      in emit (dispatch (onDisconnect (callbacks m2))
                 (Disconnect \<lparr>dc_index = idx, dc_timestamp = timestamp gp\<rparr>)) m2)"

definition isConnected :: "manager \<Rightarrow> bool" where
  "isConnected m = (activeGamepad m \<noteq> None \<and> map_size (gamepads m) > 0)"

definition getGamepadCount :: "manager \<Rightarrow> nat" where
  "getGamepadCount m = map_size (gamepads m)"

definition getAllGamepads :: "manager \<Rightarrow> gamepad list" where
  "getAllGamepads m = map snd (gamepads m)"

text \<open>What a JavaScript expression of type "gamepad" evaluates to.\<close>

datatype gamepadRef = Null | Undefined | Object gamepad

definition nav_at :: "navigator \<Rightarrow> nat \<Rightarrow> gamepadRef" where
  "nav_at nav i =
     (if i < length nav then (case nav ! i of None \<Rightarrow> Null | Some gp \<Rightarrow> Object gp)
      else Undefined)"

definition getActiveGamepad :: "navigator \<Rightarrow> manager \<Rightarrow> gamepadRef" where
  "getActiveGamepad nav m =
     (if \<not> truthy (activeGamepad m) then Null
      else (case activeGamepad m of None \<Rightarrow> Null | Some a \<Rightarrow> nav_at nav a))"

section \<open>Change detector\<close>

text \<open>
  The loop over the buttons of a frame: \<open>i\<close> is the loop counter, the list holds
  \<open>gamepad.buttons[i], gamepad.buttons[i+1], ...\<close> and \<open>prevButtonStates\<close> is the stored
  array, written in place. The result is the calls made to handlers and the array.
\<close>

fun processButtons ::
  "callbacks \<Rightarrow> nat \<Rightarrow> real \<Rightarrow> nat \<Rightarrow> button list \<Rightarrow> button list
     \<Rightarrow> event list \<times> button list" where
  "processButtons cbs idx ts i [] prevButtonStates = ([], prevButtonStates)"
| "processButtons cbs idx ts i (b # rest) prevButtonStates =
     (let prevState = array_read releasedButton prevButtonStates i;
          isPressed = pressed b;
          v = value b;
          press = (if isPressed \<and> \<not> pressed prevState
                   then dispatch (onButtonPress cbs)
                          (ButtonPress \<lparr>bp_index = i, bp_button = getButtonName idx i,
                                         bp_value = v, bp_timestamp = ts\<rparr>)
                   else []);
          release = (if \<not> isPressed \<and> pressed prevState
                     then dispatch (onButtonRelease cbs)
                            (ButtonRelease \<lparr>br_index = i, br_button = getButtonName idx i,
                                             br_timestamp = ts\<rparr>)
                     else []);
          stored = array_write releasedButton prevButtonStates i
                     \<lparr>pressed = isPressed, value = v\<rparr>;
          (es, final) = processButtons cbs idx ts (Suc i) rest stored
      in (press @ release @ es, final))"

text \<open>\<open>Math.abs(v) > this.STICK_DEAD_ZONE ? v : 0\<close>\<close>

definition deadZone :: "real \<Rightarrow> real" where
  "deadZone v = (if \<bar>v\<bar> > STICK_DEAD_ZONE then v else 0)"

text \<open>The loop over the axes of a frame, in the same form.\<close>

fun processAxes ::
  "callbacks \<Rightarrow> nat \<Rightarrow> real \<Rightarrow> nat \<Rightarrow> real list \<Rightarrow> real list
     \<Rightarrow> event list \<times> real list" where
  "processAxes cbs idx ts i [] prevAxisStates = ([], prevAxisStates)"
| "processAxes cbs idx ts i (v # rest) prevAxisStates =
     (let prevValue = array_read 0 prevAxisStates i;
          adjustedValue = deadZone v;
          adjustedPrevValue = deadZone prevValue;
          change = (if \<bar>adjustedValue - adjustedPrevValue\<bar> > 0.02
                    then dispatch (onAxisChange cbs)
                           (AxisChange \<lparr>ac_index = i, ac_value = adjustedValue,
                                        ac_rawValue = v, ac_name = getAxisName idx i,
                                        ac_timestamp = ts\<rparr>)
                    else []);
          stored = array_write 0 prevAxisStates i v;
          (es, final) = processAxes cbs idx ts (Suc i) rest stored
      in (change @ es, final))"

definition processGamepadInput :: "nat \<Rightarrow> gamepad \<Rightarrow> manager \<Rightarrow> manager" where
  "processGamepadInput idx gp m =
     (let prevButtonStates =
            (case map_get (buttonStates m) idx of Some xs \<Rightarrow> xs | None \<Rightarrow> []);
          (bes, bs) = processButtons (callbacks m) idx (timestamp gp) 0 (buttons gp)
                        prevButtonStates;
          m1 = emit bes (m\<lparr>buttonStates := map_set (buttonStates m) idx bs\<rparr>);
          prevAxisStates =
            (case map_get (axisStates m1) idx of Some xs \<Rightarrow> xs | None \<Rightarrow> []);
          (aes, as) = processAxes (callbacks m1) idx (timestamp gp) 0 (axes gp)
                        prevAxisStates
      in emit aes (m1\<lparr>axisStates := map_set (axisStates m1) idx as\<rparr>))"

definition getGamepadState :: "gamepad \<Rightarrow> gamepadState" where
  "getGamepadState gp =
     \<lparr>gs_index = index gp, gs_id = gamepadId gp, gs_timestamp = timestamp gp,
      gs_connected = connected gp,
      gs_buttons = map (\<lambda>(i, btn). \<lparr>be_index = i, be_name = getButtonName (index gp) i,
                                      be_pressed = pressed btn, be_value = value btn\<rparr>)
                     (enumerate 0 (buttons gp)),
      gs_axes = map (\<lambda>(i, axis). \<lparr>ae_index = i, ae_name = getAxisName (index gp) i,
                                    ae_value = deadZone axis, ae_rawValue = axis\<rparr>)
                  (enumerate 0 (axes gp)),
      gs_vibration = (case vibrationActuator gp of
                        Some a \<Rightarrow> Supported (actuatorType a)
                      | None \<Rightarrow> NotSupported)\<rparr>"

section \<open>Sampling loop\<close>

text \<open>
  The body of \<open>poll\<close>'s loop over the slots of \<open>navigator.getGamepads()\<close>: \<open>i\<close> is the
  loop counter and the list holds the slots from \<open>i\<close> on.
\<close>

fun pollSlots :: "nat \<Rightarrow> navigator \<Rightarrow> manager \<Rightarrow> manager" where
  "pollSlots i [] m = m"
| "pollSlots i (None # rest) m = pollSlots (Suc i) rest m"
| "pollSlots i (Some gp # rest) m =
     (let m1 = (if \<not> map_has (gamepads m) i then handleGamepadConnected gp m else m);
          m2 = processGamepadInput i gp m1;
          m3 = (if Some i = activeGamepad m2
                then emit (dispatch (onUpdate (callbacks m2)) (Update (getGamepadState gp))) m2
                else m2)
      in pollSlots (Suc i) rest m3)"

text \<open>\<open>requestAnimationFrame(() => this.poll())\<close> and \<open>cancelAnimationFrame(h)\<close>.\<close>

definition requestAnimationFrame :: "manager \<Rightarrow> nat \<times> manager" where
  "requestAnimationFrame m =
     (nextHandle m,
      m\<lparr>pendingFrames := pendingFrames m @ [nextHandle m], nextHandle := Suc (nextHandle m)\<rparr>)"

definition cancelAnimationFrame :: "nat \<Rightarrow> manager \<Rightarrow> manager" where
  "cancelAnimationFrame h m = m\<lparr>pendingFrames := removeAll h (pendingFrames m)\<rparr>"

definition poll :: "navigator \<Rightarrow> manager \<Rightarrow> manager" where
  "poll nav m =
     (if \<not> isRunning m then m
      else (let m1 = (if length nav > 0 then pollSlots 0 nav m else m);
                (h, m2) = requestAnimationFrame m1
            in m2\<lparr>rafId := Some h\<rparr>))"

definition start :: "navigator \<Rightarrow> manager \<Rightarrow> manager" where
  "start nav m = (if isRunning m then m else poll nav (m\<lparr>isRunning := True\<rparr>))"

definition stop :: "manager \<Rightarrow> manager" where
  "stop m =
     (let m1 = m\<lparr>isRunning := False\<rparr>
      in if truthy (rafId m1)
         then (case rafId m1 of
                 Some h \<Rightarrow> (cancelAnimationFrame h m1)\<lparr>rafId := None\<rparr>
               | None \<Rightarrow> m1)
         else m1)"

text \<open>The host runs the pending frame request \<open>h\<close>: it calls \<open>this.poll()\<close>.\<close>

definition frame :: "nat \<Rightarrow> navigator \<Rightarrow> manager \<Rightarrow> manager" where
  "frame h nav m =
     (if h \<in> set (pendingFrames m)
      then poll nav (m\<lparr>pendingFrames := removeAll h (pendingFrames m)\<rparr>)
      else m)"

text \<open>
  The constructor sets the fields and calls \<open>init\<close>, which attaches the two listeners
  (the host then calls \<open>handleGamepadConnected\<close> and \<open>handleGamepadDisconnected\<close>) and
  calls \<open>start\<close>.
\<close>

definition initial_fields :: manager where
  "initial_fields =
     \<lparr>gamepads = [], activeGamepad = None, isRunning = False, rafId = None,
      callbacks = \<lparr>onConnect = False, onDisconnect = False, onUpdate = False,
                   onButtonPress = False, onButtonRelease = False, onAxisChange = False\<rparr>,
      buttonStates = [], axisStates = [], emitted = [], pendingFrames = [],
      nextHandle = 1\<rparr>"

definition init :: "navigator \<Rightarrow> manager \<Rightarrow> manager" where
  "init nav m = start nav m"

definition constructor :: "navigator \<Rightarrow> manager" where
  "constructor nav = init nav initial_fields"

section \<open>Effect trigger\<close>

text \<open>
  The options object handed to \<open>playEffect\<close>. Three of its members are read from the
  pattern object, and such a read gives a number or \<open>undefined\<close> (\<open>None\<close>).
\<close>

record effectParams =
  startDelay :: real
  duration :: "real option"
  strongMagnitude :: "real option"
  weakMagnitude :: "real option"

record vibrationPattern =
  p_strongMagnitude :: real
  p_weakMagnitude :: real
  p_duration :: real

definition patterns_medium :: vibrationPattern where
  "patterns_medium = \<lparr>p_strongMagnitude = 0.6, p_weakMagnitude = 0.4, p_duration = 200\<rparr>"

definition patterns :: "(string \<times> vibrationPattern) list" where
  "patterns =
     [(''light'', \<lparr>p_strongMagnitude = 0.3, p_weakMagnitude = 0.2, p_duration = 100\<rparr>),
      (''medium'', patterns_medium),
      (''strong'', \<lparr>p_strongMagnitude = 1.0, p_weakMagnitude = 0.8, p_duration = 300\<rparr>)]"

text \<open>
  \<open>patterns\<close> is an object literal, so \<open>patterns[name]\<close> also finds the members that every
  object inherits from \<open>Object.prototype\<close> (ECMAScript, Annex B included). An inherited
  member is a function or an object: it is truthy, and reading \<open>duration\<close>,
  \<open>strongMagnitude\<close> or \<open>weakMagnitude\<close> from it gives \<open>undefined\<close>.
\<close>

definition objectPrototypeNames :: "string list" where
  "objectPrototypeNames =
     [''constructor'', ''hasOwnProperty'', ''isPrototypeOf'', ''propertyIsEnumerable'',
      ''toLocaleString'', ''toString'', ''valueOf'', ''__proto__'', ''__defineGetter__'',
      ''__defineSetter__'', ''__lookupGetter__'', ''__lookupSetter__'']"

datatype patternValue = Pattern vibrationPattern | Inherited

text \<open>\<open>patterns[name]\<close>; \<open>None\<close> is \<open>undefined\<close>.\<close>

definition patterns_at :: "string \<Rightarrow> patternValue option" where
  "patterns_at name =
     (case map_of patterns name of
        Some q \<Rightarrow> Some (Pattern q)
      | None \<Rightarrow> (if name \<in> set objectPrototypeNames then Some Inherited else None))"

text \<open>\<open>p.duration\<close>, \<open>p.strongMagnitude\<close> and \<open>p.weakMagnitude\<close>.\<close>

fun durationOf :: "patternValue \<Rightarrow> real option" where
  "durationOf (Pattern q) = Some (p_duration q)"
| "durationOf Inherited = None"

fun strongMagnitudeOf :: "patternValue \<Rightarrow> real option" where
  "strongMagnitudeOf (Pattern q) = Some (p_strongMagnitude q)"
| "strongMagnitudeOf Inherited = None"

fun weakMagnitudeOf :: "patternValue \<Rightarrow> real option" where
  "weakMagnitudeOf (Pattern q) = Some (p_weakMagnitude q)"
| "weakMagnitudeOf Inherited = None"

text \<open>
  What \<open>await actuator.playEffect('dual-rumble', params)\<close> does is the host's choice: the
  promise is fulfilled, or it is rejected (or the call throws) with an error.
\<close>

datatype error = PlatformError string

type_synonym playEffect = "effectParams \<Rightarrow> error + unit"

text \<open>
  The result is what the promise of the \<open>async\<close> function settles to: \<open>Inr b\<close> when it is
  fulfilled with the boolean \<open>b\<close>, \<open>Inl e\<close> when it is rejected, which is what a throw
  inside the function body would do. \<open>nav\<close> is what \<open>navigator.getGamepads()\<close> returns (the
  call is taken to return) and \<open>pattern\<close> is the argument, a string, after defaulting to
  \<open>'medium'\<close>. The \<open>console.error\<close> of the \<open>catch\<close> block is not recorded.
\<close>

definition testVibration ::
  "playEffect \<Rightarrow> navigator \<Rightarrow> string \<Rightarrow> manager \<Rightarrow> error + bool" where
  "testVibration play nav pattern m =
     (if \<not> truthy (activeGamepad m) then Inr False
      else (case activeGamepad m of
              None \<Rightarrow> Inr False
            | Some a \<Rightarrow>
               (case nav_at nav a of
                  Null \<Rightarrow> Inr False
                | Undefined \<Rightarrow> Inr False
                | Object gp \<Rightarrow>
                   (case vibrationActuator gp of
                      None \<Rightarrow> Inr False
                    | Some act \<Rightarrow>
                       (let p = (case patterns_at pattern of
                                   Some v \<Rightarrow> v
                                 | None \<Rightarrow> Pattern patterns_medium)
                        in (case play \<lparr>startDelay = 0, duration = durationOf p,
                                         strongMagnitude = strongMagnitudeOf p,
                                         weakMagnitude = weakMagnitudeOf p\<rparr> of
                              Inr u \<Rightarrow> Inr True
                            | Inl e \<Rightarrow> Inr False))))))"

section \<open>Registration of handlers\<close>

text \<open>The argument says whether the value passed is a function (truthy) or not.\<close>

definition register_onUpdate :: "bool \<Rightarrow> manager \<Rightarrow> manager" where
  "register_onUpdate cb m = m\<lparr>callbacks := (callbacks m)\<lparr>onUpdate := cb\<rparr>\<rparr>"

definition register_onConnect :: "bool \<Rightarrow> manager \<Rightarrow> manager" where
  "register_onConnect cb m = m\<lparr>callbacks := (callbacks m)\<lparr>onConnect := cb\<rparr>\<rparr>"

definition register_onDisconnect :: "bool \<Rightarrow> manager \<Rightarrow> manager" where
  "register_onDisconnect cb m = m\<lparr>callbacks := (callbacks m)\<lparr>onDisconnect := cb\<rparr>\<rparr>"

definition register_onButtonPress :: "bool \<Rightarrow> manager \<Rightarrow> manager" where
  "register_onButtonPress cb m = m\<lparr>callbacks := (callbacks m)\<lparr>onButtonPress := cb\<rparr>\<rparr>"

definition register_onButtonRelease :: "bool \<Rightarrow> manager \<Rightarrow> manager" where
  "register_onButtonRelease cb m = m\<lparr>callbacks := (callbacks m)\<lparr>onButtonRelease := cb\<rparr>\<rparr>"

definition register_onAxisChange :: "bool \<Rightarrow> manager \<Rightarrow> manager" where
  "register_onAxisChange cb m = m\<lparr>callbacks := (callbacks m)\<lparr>onAxisChange := cb\<rparr>\<rparr>"

section \<open>Runs of the manager\<close>

text \<open>
  What can happen to a manager after its construction: the host delivers a connect or a
  disconnect notification or runs a pending frame request, and the page calls a public
  method.
\<close>

datatype operation =
    Connected gamepad
  | Disconnected gamepad
  | Frame nat navigator
  | Start navigator
  | Stop
  | OnUpdate bool
  | OnConnect bool
  | OnDisconnect bool
  | OnButtonPress bool
  | OnButtonRelease bool
  | OnAxisChange bool

fun apply_operation :: "operation \<Rightarrow> manager \<Rightarrow> manager" where
  "apply_operation (Connected gp) m = handleGamepadConnected gp m"
| "apply_operation (Disconnected gp) m = handleGamepadDisconnected gp m"
| "apply_operation (Frame h nav) m = frame h nav m"
| "apply_operation (Start nav) m = start nav m"
| "apply_operation Stop m = stop m"
| "apply_operation (OnUpdate cb) m = register_onUpdate cb m"
| "apply_operation (OnConnect cb) m = register_onConnect cb m"
| "apply_operation (OnDisconnect cb) m = register_onDisconnect cb m"
| "apply_operation (OnButtonPress cb) m = register_onButtonPress cb m"
| "apply_operation (OnButtonRelease cb) m = register_onButtonRelease cb m"
| "apply_operation (OnAxisChange cb) m = register_onAxisChange cb m"

fun run :: "operation list \<Rightarrow> manager \<Rightarrow> manager" where
  "run [] m = m"
| "run (op # ops) m = run ops (apply_operation op m)"

text \<open>The calls made to handlers by a step from \<open>m\<close> to \<open>m'\<close>.\<close>

definition new_events :: "manager \<Rightarrow> manager \<Rightarrow> event list" where
  "new_events m m' = drop (length (emitted m)) (emitted m')"

text \<open>The payloads of one kind in a list of calls, and those for one button or axis.\<close>

fun axisChanges :: "event list \<Rightarrow> axisChangeInfo list" where
  "axisChanges [] = []"
| "axisChanges (AxisChange p # es) = p # axisChanges es"
| "axisChanges (e # es) = axisChanges es"

fun buttonPresses :: "event list \<Rightarrow> buttonPressInfo list" where
  "buttonPresses [] = []"
| "buttonPresses (ButtonPress p # es) = p # buttonPresses es"
| "buttonPresses (e # es) = buttonPresses es"

fun buttonReleases :: "event list \<Rightarrow> buttonReleaseInfo list" where
  "buttonReleases [] = []"
| "buttonReleases (ButtonRelease p # es) = p # buttonReleases es"
| "buttonReleases (e # es) = buttonReleases es"

definition axisChangesAt :: "nat \<Rightarrow> event list \<Rightarrow> axisChangeInfo list" where
  "axisChangesAt i es = filter (\<lambda>p. ac_index p = i) (axisChanges es)"

definition pressesAt :: "nat \<Rightarrow> event list \<Rightarrow> buttonPressInfo list" where
  "pressesAt i es = filter (\<lambda>p. bp_index p = i) (buttonPresses es)"

definition releasesAt :: "nat \<Rightarrow> event list \<Rightarrow> buttonReleaseInfo list" where
  "releasesAt i es = filter (\<lambda>p. br_index p = i) (buttonReleases es)"

text \<open>
  What the next sampling pass reads as the previous state of button or axis \<open>i\<close> of the
  device \<open>idx\<close>.
\<close>

definition storedButton :: "manager \<Rightarrow> nat \<Rightarrow> nat \<Rightarrow> button" where
  "storedButton m idx i =
     array_read releasedButton
       (case map_get (buttonStates m) idx of Some xs \<Rightarrow> xs | None \<Rightarrow> []) i"

definition storedAxis :: "manager \<Rightarrow> nat \<Rightarrow> nat \<Rightarrow> real" where
  "storedAxis m idx i =
     array_read 0 (case map_get (axisStates m) idx of Some xs \<Rightarrow> xs | None \<Rightarrow> []) i"

text \<open>The invariant of the device registry: the active device, if set, is registered.\<close>

definition active_registered :: "manager \<Rightarrow> bool" where
  "active_registered m =
     (case activeGamepad m of None \<Rightarrow> True | Some a \<Rightarrow> map_has (gamepads m) a)"

text \<open>
  A frame of a device for the examples: index \<open>i\<close>, timestamp \<open>t\<close>, the given buttons
  and axes, no actuator.
\<close>

definition pad :: "nat \<Rightarrow> real \<Rightarrow> button list \<Rightarrow> real list \<Rightarrow> gamepad" where
  "pad i t bs as =
     \<lparr>index = i, gamepadId = ''pad'', buttons = bs, axes = as, timestamp = t,
      connected = True, vibrationActuator = None\<rparr>"

section \<open>Consecutive passes and example states\<close>

text \<open>The sampling passes of the frames \<open>gps\<close> of one device, one after the other.\<close>

fun samplePasses :: "nat \<Rightarrow> gamepad list \<Rightarrow> manager \<Rightarrow> manager" where
  "samplePasses idx [] m = m"
| "samplePasses idx (gp # gps) m = samplePasses idx gps (processGamepadInput idx gp m)"

text \<open>A new manager with the two button handlers registered and a one-button device 0.\<close>

definition button_example :: manager where
  "button_example =
     handleGamepadConnected (pad 0 0 [releasedButton] [])
       (register_onButtonRelease True (register_onButtonPress True (constructor [])))"

text \<open>A frame of that device at time \<open>t\<close>.\<close>

definition button_frame :: "real \<Rightarrow> bool \<Rightarrow> real \<Rightarrow> gamepad" where
  "button_frame t p v = pad 0 t [\<lparr>pressed = p, value = v\<rparr>] []"

text \<open>A new manager with the axis handler registered and a one-axis device 0.\<close>

definition axis_example :: manager where
  "axis_example =
     handleGamepadConnected (pad 0 0 [] [0]) (register_onAxisChange True (constructor []))"

text \<open>A six-axis device 0 whose axis 4, the left trigger, was last sampled at 0.5.\<close>

definition trigger_example :: manager where
  "trigger_example =
     processGamepadInput 0 (pad 0 0 [] [0, 0, 0, 0, 0.5, 0])
       (handleGamepadConnected (pad 0 0 [] [0, 0, 0, 0, 0, 0])
          (register_onAxisChange True (constructor [])))"

text \<open>A new manager to which the devices 0, 1 and 2 were connected, in this order.\<close>

definition registry_example :: manager where
  "registry_example =
     handleGamepadConnected (pad 2 0 [] [])
       (handleGamepadConnected (pad 1 0 [] [])
          (handleGamepadConnected (pad 0 0 [] []) (constructor [])))"

text \<open>
  Two connect notifications, a disconnect notification and a frame in which the host
  reports the devices 0 and 2.
\<close>

definition run_example :: "operation list" where
  "run_example =
     [Connected (pad 0 0 [] []), Connected (pad 1 0 [] []), Disconnected (pad 1 1 [] []),
      Frame 1 [Some (pad 0 2 [] []), None, Some (pad 2 2 [] [])]]"

text \<open>
  The options object of the \<open>playEffect\<close> call that \<open>testVibration\<close> makes for a pattern
  name, when it gets as far as the call.
\<close>

definition requestedEffect :: "string \<Rightarrow> effectParams" where
  "requestedEffect pattern =
     (let p = (case patterns_at pattern of Some v \<Rightarrow> v | None \<Rightarrow> Pattern patterns_medium)
      in \<lparr>startDelay = 0, duration = durationOf p, strongMagnitude = strongMagnitudeOf p,
          weakMagnitude = weakMagnitudeOf p\<rparr>)"

text \<open>
  Two hosts: one rejects the medium effect and plays every other one, one rejects an
  effect without a duration and plays every other one.
\<close>

definition rejects_medium :: playEffect where
  "rejects_medium q =
     (if q = \<lparr>startDelay = 0, duration = Some 200, strongMagnitude = Some 0.6,
               weakMagnitude = Some 0.4\<rparr>
      then Inl (PlatformError ''rejected'') else Inr ())"

definition rejects_undefined :: playEffect where
  "rejects_undefined q =
     (if duration q = None then Inl (PlatformError ''TypeError'') else Inr ())"

text \<open>The one-axis device 0 of \<open>axis_example\<close> after a pass that sampled the raw value \<open>v\<close>.\<close>

definition axis_example_at :: "real \<Rightarrow> manager" where
  "axis_example_at v = processGamepadInput 0 (pad 0 0 [] [v]) axis_example"

text \<open>A device with a dual-rumble actuator.\<close>

definition rumble_pad :: "nat \<Rightarrow> gamepad" where
  "rumble_pad i = (pad i 0 [] [])\<lparr>vibrationActuator := Some \<lparr>actuatorType = ''dual-rumble''\<rparr>\<rparr>"

text \<open>
  The invariant of the sampling loop: while the manager is running, the one pending frame
  request is the one whose handle is in \<open>rafId\<close>; while it is stopped, none is pending.
\<close>

definition scheduler_ok :: "manager \<Rightarrow> bool" where
  "scheduler_ok m =
     (nextHandle m > 0 \<and>
      (if isRunning m
       then (case rafId m of Some h \<Rightarrow> h > 0 \<and> pendingFrames m = [h] | None \<Rightarrow> False)
       else pendingFrames m = []))"

section \<open>Lemmas about the primitives and the loops\<close>

lemma emit_fields [simp]:
  "gamepads (emit es m) = gamepads m"
  "activeGamepad (emit es m) = activeGamepad m"
  "isRunning (emit es m) = isRunning m"
  "rafId (emit es m) = rafId m"
  "callbacks (emit es m) = callbacks m"
  "buttonStates (emit es m) = buttonStates m"
  "axisStates (emit es m) = axisStates m"
  "pendingFrames (emit es m) = pendingFrames m"
  "nextHandle (emit es m) = nextHandle m"
  "emitted (emit es m) = emitted m @ es"
  by (simp_all add: emit_def)

lemma map_set_twice [simp]: "map_set (map_set m k v) k w = map_set m k w"
  by (induction m) auto

lemma map_of_map_set [simp]: "map_of (map_set m k v) j = (if j = k then Some v else map_of m j)"
  by (induction m) auto

lemma map_get_map_set [simp]: "map_get (map_set m k v) j = (if j = k then Some v else map_get m j)"
  by (simp add: map_get_def)

lemma array_read_write:
  "array_read d (array_write d xs i v) j = (if j = i then v else array_read d xs j)"
  by (auto simp: array_read_def array_write_def nth_append)

lemma axisChanges_append [simp]: "axisChanges (xs @ ys) = axisChanges xs @ axisChanges ys"
  by (induction xs rule: axisChanges.induct) auto
lemma buttonPresses_append [simp]: "buttonPresses (xs @ ys) = buttonPresses xs @ buttonPresses ys"
  by (induction xs rule: buttonPresses.induct) auto
lemma buttonReleases_append [simp]: "buttonReleases (xs @ ys) = buttonReleases xs @ buttonReleases ys"
  by (induction xs rule: buttonReleases.induct) auto

lemma processAxes_stored:
  "array_read 0 (snd (processAxes cbs idx ts i vs prev)) j =
     (if i \<le> j \<and> j < i + length vs then vs ! (j - i) else array_read 0 prev j)"
proof (induction vs arbitrary: i prev)
  case Nil
  then show ?case by simp
next
  case (Cons v vs)
  show ?case
    using Cons.IH [of "Suc i" "array_write 0 prev i v"]
    by (auto simp: Let_def split_beta array_read_write nth_Cons' Suc_diff_le)
qed

lemma processAxes_changes:
  "axisChangesAt j (fst (processAxes cbs idx ts i vs prev)) =
     (if i \<le> j \<and> j < i + length vs \<and> onAxisChange cbs \<and>
         \<bar>deadZone (vs ! (j - i)) - deadZone (array_read 0 prev j)\<bar> > 0.02
      then [\<lparr>ac_index = j, ac_value = deadZone (vs ! (j - i)), ac_rawValue = vs ! (j - i),
             ac_name = getAxisName idx j, ac_timestamp = ts\<rparr>]
      else [])"
proof (induction vs arbitrary: i prev)
  case Nil
  then show ?case by (simp add: axisChangesAt_def)
next
  case (Cons v vs)
  show ?case
    using Cons.IH [of "Suc i" "array_write 0 prev i v"]
    by (auto simp: Let_def split_beta array_read_write nth_Cons' Suc_diff_le axisChangesAt_def dispatch_def)
qed


lemma processAxes_length:
  "length (snd (processAxes cbs idx ts 0 vs prev)) = max (length vs) (length prev)"
proof -
  have "i \<le> length prev \<Longrightarrow>
        length (snd (processAxes cbs idx ts i vs prev)) = max (i + length vs) (length prev)"
    for i prev
  proof (induction vs arbitrary: i prev)
    case Nil
    then show ?case by simp
  next
    case (Cons v vs)
    have "Suc i \<le> length (array_write 0 prev i v)"
      using Cons.prems by (auto simp: array_write_def)
    from Cons.IH [OF this] Cons.prems show ?case
      by (auto simp: Let_def split_beta array_write_def)
  qed
  from this [of 0 prev] show ?thesis by simp
qed

lemma processAxes_payloads:
  "p \<in> set (axisChanges (fst (processAxes cbs idx ts i vs prev))) \<Longrightarrow>
     i \<le> ac_index p \<and> ac_index p < i + length vs \<and>
     ac_rawValue p = vs ! (ac_index p - i) \<and> ac_value p = deadZone (ac_rawValue p)"
proof (induction vs arbitrary: i prev)
  case Nil
  then show ?case by simp
next
  case (Cons v vs)
  show ?case
    using Cons.IH [of "Suc i" "array_write 0 prev i v"] Cons.prems
    by (auto simp: Let_def split_beta nth_Cons' Suc_diff_le dispatch_def split: if_splits)
qed

lemma processButtons_stored:
  "array_read releasedButton (snd (processButtons cbs idx ts i bs prev)) j =
     (if i \<le> j \<and> j < i + length bs then bs ! (j - i) else array_read releasedButton prev j)"
proof (induction bs arbitrary: i prev)
  case Nil
  then show ?case by auto
next
  case (Cons b bs)
  show ?case
    using Cons.IH [of "Suc i" "array_write releasedButton prev i \<lparr>pressed = pressed b, value = value b\<rparr>"]
    by (auto simp: Let_def split_beta array_read_write nth_Cons' Suc_diff_le)
qed

lemma processButtons_presses:
  "pressesAt j (fst (processButtons cbs idx ts i bs prev)) =
     (if i \<le> j \<and> j < i + length bs \<and> onButtonPress cbs \<and>
         pressed (bs ! (j - i)) \<and> \<not> pressed (array_read releasedButton prev j)
      then [\<lparr>bp_index = j, bp_button = getButtonName idx j, bp_value = value (bs ! (j - i)),
             bp_timestamp = ts\<rparr>]
      else [])"
proof (induction bs arbitrary: i prev)
  case Nil
  then show ?case by (simp add: pressesAt_def)
next
  case (Cons b bs)
  show ?case
    using Cons.IH [of "Suc i" "array_write releasedButton prev i \<lparr>pressed = pressed b, value = value b\<rparr>"]
    by (auto simp: Let_def split_beta array_read_write nth_Cons' Suc_diff_le pressesAt_def dispatch_def)
qed

lemma processButtons_releases:
  "releasesAt j (fst (processButtons cbs idx ts i bs prev)) =
     (if i \<le> j \<and> j < i + length bs \<and> onButtonRelease cbs \<and>
         \<not> pressed (bs ! (j - i)) \<and> pressed (array_read releasedButton prev j)
      then [\<lparr>br_index = j, br_button = getButtonName idx j, br_timestamp = ts\<rparr>]
      else [])"
proof (induction bs arbitrary: i prev)
  case Nil
  then show ?case by (simp add: releasesAt_def)
next
  case (Cons b bs)
  show ?case
    using Cons.IH [of "Suc i" "array_write releasedButton prev i \<lparr>pressed = pressed b, value = value b\<rparr>"]
    by (auto simp: Let_def split_beta array_read_write nth_Cons' Suc_diff_le releasesAt_def dispatch_def)
qed

lemma processButtons_no_axis [simp]:
  "axisChanges (fst (processButtons cbs idx ts i bs prev)) = []"
  by (induction bs arbitrary: i prev) (auto simp: Let_def split_beta dispatch_def)

lemma processAxes_no_button [simp]:
  "buttonPresses (fst (processAxes cbs idx ts i vs prev)) = []"
  "buttonReleases (fst (processAxes cbs idx ts i vs prev)) = []"
  by (induction vs arbitrary: i prev) (auto simp: Let_def split_beta dispatch_def)

lemma processGamepadInput_fields [simp]:
  "gamepads (processGamepadInput idx gp m) = gamepads m"
  "activeGamepad (processGamepadInput idx gp m) = activeGamepad m"
  "isRunning (processGamepadInput idx gp m) = isRunning m"
  "rafId (processGamepadInput idx gp m) = rafId m"
  "callbacks (processGamepadInput idx gp m) = callbacks m"
  "pendingFrames (processGamepadInput idx gp m) = pendingFrames m"
  "nextHandle (processGamepadInput idx gp m) = nextHandle m"
  by (simp_all add: processGamepadInput_def Let_def split_beta)

lemma processGamepadInput_emitted:
  "emitted (processGamepadInput idx gp m) =
     emitted m @
     fst (processButtons (callbacks m) idx (timestamp gp) 0 (buttons gp)
            (case map_get (buttonStates m) idx of Some xs \<Rightarrow> xs | None \<Rightarrow> [])) @
     fst (processAxes (callbacks m) idx (timestamp gp) 0 (axes gp)
            (case map_get (axisStates m) idx of Some xs \<Rightarrow> xs | None \<Rightarrow> []))"
  by (simp add: processGamepadInput_def Let_def split_beta)

lemma processGamepadInput_new_events:
  "new_events m (processGamepadInput idx gp m) =
     fst (processButtons (callbacks m) idx (timestamp gp) 0 (buttons gp)
            (case map_get (buttonStates m) idx of Some xs \<Rightarrow> xs | None \<Rightarrow> [])) @
     fst (processAxes (callbacks m) idx (timestamp gp) 0 (axes gp)
            (case map_get (axisStates m) idx of Some xs \<Rightarrow> xs | None \<Rightarrow> []))"
  by (simp add: new_events_def processGamepadInput_emitted)

lemma processGamepadInput_axisStates:
  "map_get (axisStates (processGamepadInput idx gp m)) idx =
     Some (snd (processAxes (callbacks m) idx (timestamp gp) 0 (axes gp)
            (case map_get (axisStates m) idx of Some xs \<Rightarrow> xs | None \<Rightarrow> [])))"
  by (simp add: processGamepadInput_def Let_def split_beta)

lemma processGamepadInput_buttonStates:
  "map_get (buttonStates (processGamepadInput idx gp m)) idx =
     Some (snd (processButtons (callbacks m) idx (timestamp gp) 0 (buttons gp)
            (case map_get (buttonStates m) idx of Some xs \<Rightarrow> xs | None \<Rightarrow> [])))"
  by (simp add: processGamepadInput_def Let_def split_beta)

lemma connected_fields [simp]:
  "gamepads (handleGamepadConnected gp m) = map_set (gamepads m) (index gp) gp"
  "activeGamepad (handleGamepadConnected gp m) =
     (if truthy (activeGamepad m) then activeGamepad m else Some (index gp))"
  "isRunning (handleGamepadConnected gp m) = isRunning m"
  "rafId (handleGamepadConnected gp m) = rafId m"
  "callbacks (handleGamepadConnected gp m) = callbacks m"
  "pendingFrames (handleGamepadConnected gp m) = pendingFrames m"
  "nextHandle (handleGamepadConnected gp m) = nextHandle m"
  "buttonStates (handleGamepadConnected gp m) =
     map_set (buttonStates m) (index gp) (replicate (length (buttons gp)) releasedButton)"
  "axisStates (handleGamepadConnected gp m) =
     map_set (axisStates m) (index gp) (replicate (length (axes gp)) 0)"
  by (simp_all add: handleGamepadConnected_def initializeButtonStates_def
      initializeAxisStates_def Let_def)

lemma constructor_empty:
  "constructor [] =
     initial_fields\<lparr>isRunning := True, pendingFrames := [1], nextHandle := 2, rafId := Some 1\<rparr>"
  by (simp add: constructor_def init_def start_def poll_def initial_fields_def
      requestAnimationFrame_def)

lemma constructor_fields [simp]:
  "gamepads (constructor []) = []"
  "activeGamepad (constructor []) = None"
  "buttonStates (constructor []) = []"
  "axisStates (constructor []) = []"
  "emitted (constructor []) = []"
  "isRunning (constructor []) = True"
  by (simp_all add: constructor_empty initial_fields_def)

lemma storedAxis_processGamepadInput:
  "storedAxis (processGamepadInput idx gp m) idx i =
     (if i < length (axes gp) then axes gp ! i else storedAxis m idx i)"
  by (simp add: storedAxis_def processGamepadInput_axisStates processAxes_stored)

lemma storedButton_processGamepadInput:
  "storedButton (processGamepadInput idx gp m) idx i =
     (if i < length (buttons gp) then buttons gp ! i else storedButton m idx i)"
  by (simp add: storedButton_def processGamepadInput_buttonStates processButtons_stored)

lemma axisChangesAt_processGamepadInput:
  "axisChangesAt i (new_events m (processGamepadInput idx gp m)) =
     (if i < length (axes gp) \<and> onAxisChange (callbacks m) \<and>
         \<bar>deadZone (axes gp ! i) - deadZone (storedAxis m idx i)\<bar> > 0.02
      then [\<lparr>ac_index = i, ac_value = deadZone (axes gp ! i), ac_rawValue = axes gp ! i,
             ac_name = getAxisName idx i, ac_timestamp = timestamp gp\<rparr>]
      else [])"
  by (simp add: processGamepadInput_new_events axisChangesAt_def storedAxis_def
      processAxes_changes [unfolded axisChangesAt_def])

lemma pressesAt_processGamepadInput:
  "pressesAt i (new_events m (processGamepadInput idx gp m)) =
     (if i < length (buttons gp) \<and> onButtonPress (callbacks m) \<and>
         pressed (buttons gp ! i) \<and> \<not> pressed (storedButton m idx i)
      then [\<lparr>bp_index = i, bp_button = getButtonName idx i, bp_value = value (buttons gp ! i),
             bp_timestamp = timestamp gp\<rparr>]
      else [])"
  by (simp add: processGamepadInput_new_events pressesAt_def storedButton_def
      processButtons_presses [unfolded pressesAt_def])

lemma releasesAt_processGamepadInput:
  "releasesAt i (new_events m (processGamepadInput idx gp m)) =
     (if i < length (buttons gp) \<and> onButtonRelease (callbacks m) \<and>
         \<not> pressed (buttons gp ! i) \<and> pressed (storedButton m idx i)
      then [\<lparr>br_index = i, br_button = getButtonName idx i, br_timestamp = timestamp gp\<rparr>]
      else [])"
  by (simp add: processGamepadInput_new_events releasesAt_def storedButton_def
      processButtons_releases [unfolded releasesAt_def])

lemma register_fields [simp]:
  "callbacks (register_onAxisChange cb m) = (callbacks m)\<lparr>onAxisChange := cb\<rparr>"
  "gamepads (register_onAxisChange cb m) = gamepads m"
  "activeGamepad (register_onAxisChange cb m) = activeGamepad m"
  "axisStates (register_onAxisChange cb m) = axisStates m"
  "buttonStates (register_onAxisChange cb m) = buttonStates m"
  "emitted (register_onAxisChange cb m) = emitted m"
  by (simp_all add: register_onAxisChange_def)

lemma new_events_same [simp]: "new_events m m = []"
  by (simp add: new_events_def)

lemma pressesAt_append [simp]: "pressesAt i (xs @ ys) = pressesAt i xs @ pressesAt i ys"
  by (simp add: pressesAt_def)
lemma releasesAt_append [simp]: "releasesAt i (xs @ ys) = releasesAt i xs @ releasesAt i ys"
  by (simp add: releasesAt_def)
lemma pressesAt_Nil [simp]: "pressesAt i [] = []"
  by (simp add: pressesAt_def)
lemma releasesAt_Nil [simp]: "releasesAt i [] = []"
  by (simp add: releasesAt_def)

lemma emitted_length_mono:
  "length (emitted m) \<le> length (emitted m') \<Longrightarrow>
     length (emitted m) \<le> length (emitted (processGamepadInput idx gp m'))"
  by (simp add: processGamepadInput_emitted)

lemma new_events_processGamepadInput:
  "length (emitted m) \<le> length (emitted m') \<Longrightarrow>
     new_events m (processGamepadInput idx gp m') =
       new_events m m' @ new_events m' (processGamepadInput idx gp m')"
  by (simp add: new_events_def processGamepadInput_emitted)

lemma five_samples:
  assumes "\<not> pressed (storedButton m idx i)"
    and "i < length (buttons g1)" "i < length (buttons g2)" "i < length (buttons g3)"
      "i < length (buttons g4)" "i < length (buttons g5)"
    and "\<not> pressed (buttons g1 ! i)" "\<not> pressed (buttons g2 ! i)" "pressed (buttons g3 ! i)"
      "pressed (buttons g4 ! i)" "\<not> pressed (buttons g5 ! i)"
  shows "pressesAt i (new_events m (samplePasses idx [g1, g2, g3, g4, g5] m)) =
        (if onButtonPress (callbacks m)
         then [\<lparr>bp_index = i, bp_button = getButtonName idx i,
                bp_value = value (buttons g3 ! i), bp_timestamp = timestamp g3\<rparr>]
         else [])"
    and "releasesAt i (new_events m (samplePasses idx [g1, g2, g3, g4, g5] m)) =
        (if onButtonRelease (callbacks m)
         then [\<lparr>br_index = i, br_button = getButtonName idx i, br_timestamp = timestamp g5\<rparr>]
         else [])"
proof -
  define m1 where "m1 = processGamepadInput idx g1 m"
  define m2 where "m2 = processGamepadInput idx g2 m1"
  define m3 where "m3 = processGamepadInput idx g3 m2"
  define m4 where "m4 = processGamepadInput idx g4 m3"
  define m5 where "m5 = processGamepadInput idx g5 m4"
  have run: "samplePasses idx [g1, g2, g3, g4, g5] m = m5"
    by (simp add: m1_def m2_def m3_def m4_def m5_def)
  have cb: "callbacks m1 = callbacks m" "callbacks m2 = callbacks m"
    "callbacks m3 = callbacks m" "callbacks m4 = callbacks m"
    by (simp_all add: m1_def m2_def m3_def m4_def)
  have st: "storedButton m1 idx i = buttons g1 ! i" "storedButton m2 idx i = buttons g2 ! i"
    "storedButton m3 idx i = buttons g3 ! i" "storedButton m4 idx i = buttons g4 ! i"
    using assms by (simp_all add: m1_def m2_def m3_def m4_def storedButton_processGamepadInput)
  have len: "length (emitted m) \<le> length (emitted m1)" "length (emitted m) \<le> length (emitted m2)"
    "length (emitted m) \<le> length (emitted m3)" "length (emitted m) \<le> length (emitted m4)"
    by (simp_all add: m1_def m2_def m3_def m4_def processGamepadInput_emitted)
  have e2: "new_events m m2 = new_events m m1 @ new_events m1 m2"
    unfolding m2_def by (rule new_events_processGamepadInput [OF len(1)])
  have e3: "new_events m m3 = new_events m m2 @ new_events m2 m3"
    unfolding m3_def by (rule new_events_processGamepadInput [OF len(2)])
  have e4: "new_events m m4 = new_events m m3 @ new_events m3 m4"
    unfolding m4_def by (rule new_events_processGamepadInput [OF len(3)])
  have e5: "new_events m m5 = new_events m m4 @ new_events m4 m5"
    unfolding m5_def by (rule new_events_processGamepadInput [OF len(4)])
  have ev: "new_events m m5 =
      new_events m m1 @ new_events m1 m2 @ new_events m2 m3 @ new_events m3 m4 @ new_events m4 m5"
    by (simp add: e2 e3 e4 e5)
  have p1: "pressesAt i (new_events m m1) = []"
    unfolding m1_def using assms by (simp add: pressesAt_processGamepadInput)
  have p2: "pressesAt i (new_events m1 m2) = []"
    unfolding m2_def using assms by (simp add: pressesAt_processGamepadInput cb st)
  have p3: "pressesAt i (new_events m2 m3) =
       (if onButtonPress (callbacks m)
        then [\<lparr>bp_index = i, bp_button = getButtonName idx i,
                bp_value = value (buttons g3 ! i), bp_timestamp = timestamp g3\<rparr>]
        else [])"
    unfolding m3_def using assms by (simp add: pressesAt_processGamepadInput cb st)
  have p4: "pressesAt i (new_events m3 m4) = []"
    unfolding m4_def using assms by (simp add: pressesAt_processGamepadInput cb st)
  have p5: "pressesAt i (new_events m4 m5) = []"
    unfolding m5_def using assms by (simp add: pressesAt_processGamepadInput cb st)
  have r1: "releasesAt i (new_events m m1) = []"
    unfolding m1_def using assms by (simp add: releasesAt_processGamepadInput)
  have r2: "releasesAt i (new_events m1 m2) = []"
    unfolding m2_def using assms by (simp add: releasesAt_processGamepadInput cb st)
  have r3: "releasesAt i (new_events m2 m3) = []"
    unfolding m3_def using assms by (simp add: releasesAt_processGamepadInput cb st)
  have r4: "releasesAt i (new_events m3 m4) = []"
    unfolding m4_def using assms by (simp add: releasesAt_processGamepadInput cb st)
  have r5: "releasesAt i (new_events m4 m5) =
       (if onButtonRelease (callbacks m)
        then [\<lparr>br_index = i, br_button = getButtonName idx i, br_timestamp = timestamp g5\<rparr>]
        else [])"
    unfolding m5_def using assms by (simp add: releasesAt_processGamepadInput cb st)
  show "pressesAt i (new_events m (samplePasses idx [g1, g2, g3, g4, g5] m)) =
        (if onButtonPress (callbacks m)
         then [\<lparr>bp_index = i, bp_button = getButtonName idx i,
                bp_value = value (buttons g3 ! i), bp_timestamp = timestamp g3\<rparr>]
         else [])"
    unfolding run ev by (simp add: p1 p2 p3 p4 p5)
  show "releasesAt i (new_events m (samplePasses idx [g1, g2, g3, g4, g5] m)) =
        (if onButtonRelease (callbacks m)
         then [\<lparr>br_index = i, br_button = getButtonName idx i, br_timestamp = timestamp g5\<rparr>]
         else [])"
    unfolding run ev by (simp add: r1 r2 r3 r4 r5)
qed

lemma register_fields2 [simp]:
  "callbacks (register_onButtonPress cb m) = (callbacks m)\<lparr>onButtonPress := cb\<rparr>"
  "gamepads (register_onButtonPress cb m) = gamepads m"
  "activeGamepad (register_onButtonPress cb m) = activeGamepad m"
  "axisStates (register_onButtonPress cb m) = axisStates m"
  "buttonStates (register_onButtonPress cb m) = buttonStates m"
  "emitted (register_onButtonPress cb m) = emitted m"
  "callbacks (register_onButtonRelease cb m) = (callbacks m)\<lparr>onButtonRelease := cb\<rparr>"
  "gamepads (register_onButtonRelease cb m) = gamepads m"
  "activeGamepad (register_onButtonRelease cb m) = activeGamepad m"
  "axisStates (register_onButtonRelease cb m) = axisStates m"
  "buttonStates (register_onButtonRelease cb m) = buttonStates m"
  "emitted (register_onButtonRelease cb m) = emitted m"
  by (simp_all add: register_onButtonPress_def register_onButtonRelease_def)

lemma getGamepadState_axes:
  "i < length (axes gp) \<Longrightarrow>
     gs_axes (getGamepadState gp) ! i =
       \<lparr>ae_index = i, ae_name = getAxisName (index gp) i,
        ae_value = deadZone (axes gp ! i), ae_rawValue = axes gp ! i\<rparr>"
  by (simp add: getGamepadState_def nth_enumerate_eq)

lemma axisChanges_processGamepadInput:
  "p \<in> set (axisChanges (new_events m (processGamepadInput idx gp m))) \<Longrightarrow>
     ac_index p < length (axes gp) \<and> ac_rawValue p = axes gp ! ac_index p \<and>
     ac_value p = deadZone (ac_rawValue p)"
  using processAxes_payloads [of p "callbacks m" idx "timestamp gp" 0 "axes gp"]
  by (simp add: processGamepadInput_new_events)

lemma trigger_example_events:
  "new_events trigger_example
     (processGamepadInput 0 (pad 0 1 [] [0, 0, 0, 0, 0.10, 0]) trigger_example) =
   [AxisChange \<lparr>ac_index = 4, ac_value = 0, ac_rawValue = 0.10, ac_name = ''LT'', ac_timestamp = 1\<rparr>]"
  by code_simp

lemma processAxes_nth:
  assumes "j < length vs"
  shows "snd (processAxes cbs idx ts 0 vs prev) ! j = vs ! j"
proof -
  have "j < length (snd (processAxes cbs idx ts 0 vs prev))"
    using assms by (simp add: processAxes_length)
  with processAxes_stored [of cbs idx ts 0 vs prev j] assms show ?thesis
    by (simp add: array_read_def)
qed

lemma axisStates_processGamepadInput:
  "\<exists>xs. map_get (axisStates (processGamepadInput idx gp m)) idx = Some xs \<and>
        length (axes gp) \<le> length xs \<and> (\<forall>i < length (axes gp). xs ! i = axes gp ! i)"
  by (simp add: processGamepadInput_axisStates processAxes_length processAxes_nth)

lemma map_has_keys: "map_has m k = (k \<in> set (map_keys m))"
  by (induction m) (auto simp: map_has_def map_keys_def)

lemma map_keys_map_set:
  "set (map_keys (map_set m k v)) = insert k (set (map_keys m))"
proof (induction m)
  case Nil
  then show ?case by (simp add: map_keys_def)
next
  case (Cons e m)
  then show ?case by (cases e) (auto simp: map_keys_def)
qed

lemma first_key_registered: "map_keys m = j # js \<Longrightarrow> map_has m j"
  by (simp add: map_has_keys)

lemma map_keys_map_delete: "map_keys (map_delete m k) = filter (\<lambda>j. j \<noteq> k) (map_keys m)"
  by (induction m) (auto simp: map_keys_def map_delete_def)

lemma map_has_map_set [simp]: "map_has (map_set m k v) j = (j = k \<or> map_has m j)"
  by (auto simp: map_has_keys map_keys_map_set)

lemma map_has_map_delete [simp]: "map_has (map_delete m k) j = (j \<noteq> k \<and> map_has m j)"
  by (auto simp: map_has_keys map_keys_map_delete)

lemma map_get_map_delete [simp]:
  "map_get (map_delete m k) j = (if j = k then None else map_get m j)"
  by (induction m) (auto simp: map_get_def map_delete_def)

lemma disconnected_fields [simp]:
  "gamepads (handleGamepadDisconnected gp m) = map_delete (gamepads m) (index gp)"
  "buttonStates (handleGamepadDisconnected gp m) = map_delete (buttonStates m) (index gp)"
  "axisStates (handleGamepadDisconnected gp m) = map_delete (axisStates m) (index gp)"
  "isRunning (handleGamepadDisconnected gp m) = isRunning m"
  "rafId (handleGamepadDisconnected gp m) = rafId m"
  "callbacks (handleGamepadDisconnected gp m) = callbacks m"
  "pendingFrames (handleGamepadDisconnected gp m) = pendingFrames m"
  "nextHandle (handleGamepadDisconnected gp m) = nextHandle m"
  by (simp_all add: handleGamepadDisconnected_def Let_def)

lemma disconnected_active:
  "activeGamepad (handleGamepadDisconnected gp m) =
     (if activeGamepad m = Some (index gp)
      then (case map_keys (map_delete (gamepads m) (index gp)) of
              [] \<Rightarrow> None | k # ks \<Rightarrow> Some k)
      else activeGamepad m)"
  by (simp add: handleGamepadDisconnected_def Let_def map_size_def map_keys_def
      split: list.split)

lemma active_registered_connected:
  "active_registered m \<Longrightarrow> active_registered (handleGamepadConnected gp m)"
  by (auto simp: active_registered_def split: option.splits)

lemma active_registered_disconnected:
  "active_registered m \<Longrightarrow> active_registered (handleGamepadDisconnected gp m)"
proof (cases "activeGamepad m = Some (index gp)")
  case True
  then show ?thesis
    by (auto simp: active_registered_def disconnected_active
        split: list.splits dest: first_key_registered)
next
  case False
  assume "active_registered m"
  with False show ?thesis
    by (auto simp: active_registered_def disconnected_active split: option.splits)
qed


lemma no_keys_no_active:
  "active_registered m \<Longrightarrow> map_keys (gamepads m) = [] \<Longrightarrow> activeGamepad m = None"
  by (auto simp: active_registered_def map_has_keys split: option.splits)

lemma disconnect_all_three:
  assumes keys: "map_keys (gamepads m) = [0, 1, 2]" and act: "activeGamepad m = Some 1"
    and all: "set [index a, index b, index c] = {0, 1, 2}"
  shows "activeGamepad (handleGamepadDisconnected c
           (handleGamepadDisconnected b (handleGamepadDisconnected a m))) = None"
proof -
  let ?m3 = "handleGamepadDisconnected c
           (handleGamepadDisconnected b (handleGamepadDisconnected a m))"
  have "active_registered m"
    using keys act by (simp add: active_registered_def map_has_keys)
  then have reg: "active_registered ?m3"
    by (intro active_registered_disconnected)
  have "set (map_keys (gamepads ?m3)) = {0, 1, 2} - {index a, index b, index c}"
    by (auto simp: map_keys_map_delete keys)
  with all have "map_keys (gamepads ?m3) = []"
    by simp
  with reg show ?thesis
    by (rule no_keys_no_active)
qed

lemma pollSlots_fields [simp]:
  "isRunning (pollSlots i nav m) = isRunning m"
  "rafId (pollSlots i nav m) = rafId m"
  "pendingFrames (pollSlots i nav m) = pendingFrames m"
  "nextHandle (pollSlots i nav m) = nextHandle m"
  "callbacks (pollSlots i nav m) = callbacks m"
  by (induction i nav m rule: pollSlots.induct) (simp_all add: Let_def)

lemma active_registered_iff:
  "active_registered m = (\<forall>a. activeGamepad m = Some a \<longrightarrow> map_has (gamepads m) a)"
  by (simp add: active_registered_def split: option.split)

lemma active_registered_cong:
  "activeGamepad m' = activeGamepad m \<Longrightarrow> gamepads m' = gamepads m \<Longrightarrow>
     active_registered m' = active_registered m"
  by (simp add: active_registered_iff)

lemma active_registered_processGamepadInput:
  "active_registered m \<Longrightarrow> active_registered (processGamepadInput idx gp m)"
  by (simp add: active_registered_iff)

lemma active_registered_emit:
  "active_registered m \<Longrightarrow> active_registered (emit es m)"
  by (simp add: active_registered_iff)

lemma poll_eq:
  "poll nav m =
     (if \<not> isRunning m then m
      else (pollSlots 0 nav m)
             \<lparr>pendingFrames := pendingFrames m @ [nextHandle m],
              nextHandle := Suc (nextHandle m), rafId := Some (nextHandle m)\<rparr>)"
  by (cases nav) (simp_all add: poll_def requestAnimationFrame_def Let_def)

lemma active_registered_pollSlots:
  "active_registered m \<Longrightarrow> active_registered (pollSlots i nav m)"
proof (induction i nav m rule: pollSlots.induct)
  case (1 i m)
  then show ?case by simp
next
  case (2 i rest m)
  then show ?case by simp
next
  case (3 i gp rest m)
  show ?case
    unfolding pollSlots.simps Let_def
    by (intro "3.IH" [unfolded Let_def, OF refl refl refl])
      (auto intro!: active_registered_processGamepadInput active_registered_emit
        active_registered_connected "3.prems")
qed

lemma active_registered_poll:
  "active_registered m \<Longrightarrow> active_registered (poll nav m)"
proof -
  assume a: "active_registered m"
  have "active_registered (pollSlots 0 nav m)"
    using a by (rule active_registered_pollSlots)
  with a show ?thesis
    by (simp add: poll_eq active_registered_iff)
qed

lemma active_registered_start:
  "active_registered m \<Longrightarrow> active_registered (start nav m)"
proof -
  assume a: "active_registered m"
  then have "active_registered (m\<lparr>isRunning := True\<rparr>)"
    by (simp add: active_registered_iff)
  then have "active_registered (poll nav (m\<lparr>isRunning := True\<rparr>))"
    by (rule active_registered_poll)
  with a show ?thesis
    by (simp add: start_def)
qed

lemma active_registered_stop:
  "active_registered m \<Longrightarrow> active_registered (stop m)"
  by (auto simp: stop_def active_registered_iff cancelAnimationFrame_def Let_def
      split: option.splits)

lemma active_registered_frame:
  "active_registered m \<Longrightarrow> active_registered (frame h nav m)"
proof -
  assume a: "active_registered m"
  then have "active_registered (m\<lparr>pendingFrames := removeAll h (pendingFrames m)\<rparr>)"
    by (simp add: active_registered_iff)
  then have "active_registered (poll nav (m\<lparr>pendingFrames := removeAll h (pendingFrames m)\<rparr>))"
    by (rule active_registered_poll)
  with a show ?thesis
    by (simp add: frame_def)
qed

lemma active_registered_apply:
  "active_registered m \<Longrightarrow> active_registered (apply_operation op m)"
proof (cases op)
  case (Connected gp)
  assume "active_registered m"
  with Connected show ?thesis by (simp add: active_registered_connected)
next
  case (Disconnected gp)
  assume "active_registered m"
  with Disconnected show ?thesis by (simp add: active_registered_disconnected)
next
  case (Frame h nav)
  assume "active_registered m"
  with Frame show ?thesis by (simp add: active_registered_frame)
next
  case (Start nav)
  assume "active_registered m"
  with Start show ?thesis by (simp add: active_registered_start)
next
  case Stop
  assume "active_registered m"
  with Stop show ?thesis by (simp add: active_registered_stop)
qed (simp_all add: active_registered_iff register_onUpdate_def register_onConnect_def
    register_onDisconnect_def register_onButtonPress_def register_onButtonRelease_def
    register_onAxisChange_def)

lemma active_registered_run:
  "active_registered m \<Longrightarrow> active_registered (run ops m)"
  by (induction ops arbitrary: m) (simp_all add: active_registered_apply)

lemma active_registered_constructor: "active_registered (constructor nav)"
proof -
  have "active_registered initial_fields"
    by (simp add: active_registered_iff initial_fields_def)
  then show ?thesis
    unfolding constructor_def init_def by (rule active_registered_start)
qed

lemma scheduler_ok_iff:
  "scheduler_ok m =
     (nextHandle m > 0 \<and>
      (isRunning m \<longrightarrow> (\<exists>h. rafId m = Some h \<and> h > 0 \<and> pendingFrames m = [h])) \<and>
      (\<not> isRunning m \<longrightarrow> pendingFrames m = []))"
  by (simp add: scheduler_ok_def split: option.split)

lemma scheduler_ok_cong:
  "isRunning m' = isRunning m \<Longrightarrow> rafId m' = rafId m \<Longrightarrow>
   pendingFrames m' = pendingFrames m \<Longrightarrow> nextHandle m' = nextHandle m \<Longrightarrow>
     scheduler_ok m' = scheduler_ok m"
  by (simp add: scheduler_ok_iff)

lemma isRunning_start [simp]: "isRunning (start nav m)"
  by (simp add: start_def poll_eq)

lemma start_running: "isRunning m \<Longrightarrow> start nav m = m"
  by (simp add: start_def)

lemma scheduler_ok_start: "scheduler_ok m \<Longrightarrow> scheduler_ok (start nav m)"
  by (auto simp: start_def poll_eq scheduler_ok_iff)

lemma scheduler_ok_stop: "scheduler_ok m \<Longrightarrow> scheduler_ok (stop m)"
  by (auto simp: stop_def scheduler_ok_iff cancelAnimationFrame_def Let_def
      split: option.splits if_splits)

lemma scheduler_ok_frame: "scheduler_ok m \<Longrightarrow> scheduler_ok (frame h nav m)"
  by (auto simp: frame_def poll_eq scheduler_ok_iff split: option.splits if_splits)

lemma scheduler_ok_apply: "scheduler_ok m \<Longrightarrow> scheduler_ok (apply_operation op m)"
proof (cases op)
  case (Frame h nav)
  assume "scheduler_ok m"
  with Frame show ?thesis by (simp add: scheduler_ok_frame)
next
  case (Start nav)
  assume "scheduler_ok m"
  with Start show ?thesis by (simp add: scheduler_ok_start)
next
  case Stop
  assume "scheduler_ok m"
  with Stop show ?thesis by (simp add: scheduler_ok_stop)
qed (simp_all add: scheduler_ok_iff register_onUpdate_def register_onConnect_def
    register_onDisconnect_def register_onButtonPress_def register_onButtonRelease_def
    register_onAxisChange_def)

lemma scheduler_ok_run: "scheduler_ok m \<Longrightarrow> scheduler_ok (run ops m)"
  by (induction ops arbitrary: m) (simp_all add: scheduler_ok_apply)

lemma scheduler_ok_constructor: "scheduler_ok (constructor nav)"
proof -
  have "scheduler_ok initial_fields"
    by (simp add: scheduler_ok_iff initial_fields_def)
  then show ?thesis
    unfolding constructor_def init_def by (rule scheduler_ok_start)
qed

lemma scheduler_ok_pending: "scheduler_ok m \<Longrightarrow> length (pendingFrames m) \<le> 1"
  by (auto simp: scheduler_ok_iff split: option.splits if_splits)

lemma stop_halts:
  assumes "scheduler_ok m"
  shows "pendingFrames (stop m) = []" and "\<not> isRunning (stop m)"
    and "frame h nav (stop m) = stop m"
proof -
  show p: "pendingFrames (stop m) = []"
    using assms
    by (auto simp: stop_def scheduler_ok_iff cancelAnimationFrame_def Let_def
        split: option.splits if_splits)
  show "\<not> isRunning (stop m)"
    by (auto simp: stop_def cancelAnimationFrame_def Let_def split: option.splits)
  from p show "frame h nav (stop m) = stop m"
    by (simp add: frame_def)
qed

lemma deadZone_explicit: "deadZone v = (if \<bar>v\<bar> \<le> 0.15 then 0 else v)"
  by (simp add: deadZone_def STICK_DEAD_ZONE_def)

lemma testVibration_settles: "testVibration play nav pattern m \<noteq> Inl e"
  by (auto simp: testVibration_def Let_def
      split: option.splits gamepadRef.splits sum.splits)

lemma testVibration_call:
  assumes "truthy (activeGamepad m)" and "activeGamepad m = Some a"
    and "nav_at nav a = Object gp" and "vibrationActuator gp = Some act"
  shows "testVibration play nav pattern m =
     (case play (requestedEffect pattern) of Inr u \<Rightarrow> Inr True | Inl e \<Rightarrow> Inr False)"
  using assms by (simp add: testVibration_def requestedEffect_def Let_def)

lemma testVibration_rejected:
  assumes "play (requestedEffect pattern) = Inl e"
  shows "testVibration play nav pattern m = Inr False"
proof (cases "\<exists>a gp act. truthy (activeGamepad m) \<and> activeGamepad m = Some a \<and>
    nav_at nav a = Object gp \<and> vibrationActuator gp = Some act")
  case True
  then obtain a gp act where "truthy (activeGamepad m)" "activeGamepad m = Some a"
    "nav_at nav a = Object gp" "vibrationActuator gp = Some act" by blast
  from testVibration_call [OF this] assms show ?thesis by simp
next
  case False
  then show ?thesis
    by (auto simp: testVibration_def split: option.splits gamepadRef.splits)
qed

lemma requestedEffect_own:
  "requestedEffect ''light'' =
     \<lparr>startDelay = 0, duration = Some 100, strongMagnitude = Some 0.3, weakMagnitude = Some 0.2\<rparr>"
  "requestedEffect ''medium'' =
     \<lparr>startDelay = 0, duration = Some 200, strongMagnitude = Some 0.6, weakMagnitude = Some 0.4\<rparr>"
  "requestedEffect ''strong'' =
     \<lparr>startDelay = 0, duration = Some 300, strongMagnitude = Some 1.0, weakMagnitude = Some 0.8\<rparr>"
  by (simp_all add: requestedEffect_def patterns_at_def patterns_def patterns_medium_def)

lemma requestedEffect_inherited:
  "pattern \<in> set objectPrototypeNames \<Longrightarrow>
     requestedEffect pattern =
       \<lparr>startDelay = 0, duration = None, strongMagnitude = None, weakMagnitude = None\<rparr>"
  by (auto simp: requestedEffect_def patterns_at_def patterns_def objectPrototypeNames_def)

lemma requestedEffect_other:
  "pattern \<notin> {''light'', ''medium'', ''strong''} \<Longrightarrow> pattern \<notin> set objectPrototypeNames \<Longrightarrow>
     requestedEffect pattern =
       \<lparr>startDelay = 0, duration = Some 200, strongMagnitude = Some 0.6, weakMagnitude = Some 0.4\<rparr>"
  by (simp add: requestedEffect_def patterns_at_def patterns_def patterns_medium_def)

section \<open>Properties of the manager\<close>

text \<open>
  C1. A connect notification inserts the device into the registry under its index, and
  makes it the active device if no device is active, otherwise the active device stays.
  The test for "no device is active" is the truthiness of the field, so the source takes
  an active device with index 0 for no active device: after device 0 has been connected
  to a new manager and is active, a connect notification for device 1 makes device 1 the
  active device.
\<close>

theorem connect_replaces_active_device_zero:
  "activeGamepad (handleGamepadConnected (pad 0 0 [] []) (constructor [])) = Some 0 \<and>
   map_keys (gamepads (handleGamepadConnected (pad 1 0 [] [])
      (handleGamepadConnected (pad 0 0 [] []) (constructor [])))) = [0, 1] \<and>
   activeGamepad (handleGamepadConnected (pad 1 0 [] [])
      (handleGamepadConnected (pad 0 0 [] []) (constructor []))) = Some 1"
  by (simp add: pad_def map_keys_def)

text \<open>
  C10. Whenever the active device is the device with index 0, \<open>getActiveGamepad\<close> returns
  \<open>null\<close>, whatever the host reports in slot 0.
\<close>

theorem getActiveGamepad_index_zero:
  "activeGamepad m = Some 0 \<Longrightarrow> getActiveGamepad nav m = Null"
  by (simp add: getActiveGamepad_def)

theorem getActiveGamepad_index_zero_witness:
  "activeGamepad (handleGamepadConnected (pad 0 0 [] []) (constructor [])) = Some 0 \<and>
   nav_at [Some (pad 0 0 [] [])] 0 = Object (pad 0 0 [] []) \<and>
   getActiveGamepad [Some (pad 0 0 [] [])]
     (handleGamepadConnected (pad 0 0 [] []) (constructor [])) = Null"
  using getActiveGamepad_index_zero
    [of "handleGamepadConnected (pad 0 0 [] []) (constructor [])" "[Some (pad 0 0 [] [])]"]
  by (simp add: pad_def nav_at_def)

text \<open>
  C2. The dead-zone adjustment maps a raw value \<open>v\<close> to 0 when \<open>|v| \<le> 0.15\<close> and to \<open>v\<close>
  when \<open>|v| > 0.15\<close>; raw 0.10 gives 0 and raw 0.20 gives 0.20. It is the adjustment of
  every axis index of every device: the value of every axis-change payload of a sampling
  pass and of every axis entry of a state snapshot is the dead-zone adjustment, with the
  threshold 0.15, of the raw value of that axis, the trigger axes included.
\<close>

theorem dead_zone_adjustment:
  "(\<bar>v\<bar> \<le> 0.15 \<longrightarrow> deadZone v = 0) \<and> (\<bar>v\<bar> > 0.15 \<longrightarrow> deadZone v = v) \<and>
   deadZone 0.10 = 0 \<and> deadZone 0.20 = 0.20 \<and>
   (\<forall>p \<in> set (axisChanges (new_events m (processGamepadInput idx gp m))).
      ac_index p < length (axes gp) \<and> ac_rawValue p = axes gp ! ac_index p \<and>
      ac_value p = deadZone (ac_rawValue p)) \<and>
   (\<forall>i < length (axes gp).
      ae_rawValue (gs_axes (getGamepadState gp) ! i) = axes gp ! i \<and>
      ae_value (gs_axes (getGamepadState gp) ! i) = deadZone (axes gp ! i))"
proof (intro conjI impI ballI allI)
  fix p assume "p \<in> set (axisChanges (new_events m (processGamepadInput idx gp m)))"
  from axisChanges_processGamepadInput [OF this]
  show "ac_index p < length (axes gp)" "ac_rawValue p = axes gp ! ac_index p"
    "ac_value p = deadZone (ac_rawValue p)" by simp_all
qed (simp_all add: deadZone_def STICK_DEAD_ZONE_def getGamepadState_axes)

theorem dead_zone_adjustment_witness:
  "\<bar>0.10 :: real\<bar> \<le> 0.15 \<and> deadZone 0.10 = 0 \<and> \<bar>0.20 :: real\<bar> > 0.15 \<and> deadZone 0.20 = 0.20 \<and>
   axisChanges (new_events trigger_example
     (processGamepadInput 0 (pad 0 1 [] [0, 0, 0, 0, 0.10, 0]) trigger_example)) =
   [\<lparr>ac_index = 4, ac_value = 0, ac_rawValue = 0.10, ac_name = ''LT'', ac_timestamp = 1\<rparr>] \<and>
   deadZone 0.10 = ac_value \<lparr>ac_index = 4, ac_value = 0, ac_rawValue = 0.10, ac_name = ''LT'', ac_timestamp = 1\<rparr> \<and>
   (4::nat) < length (axes (pad 0 1 [] [0, 0, 0, 0, 0.10, 0])) \<and>
   ae_value (gs_axes (getGamepadState (pad 0 1 [] [0, 0, 0, 0, 0.10, 0])) ! 4) = 0"
proof -
  note a = dead_zone_adjustment [of "0.10" trigger_example 0 "pad 0 1 [] [0, 0, 0, 0, 0.10, 0]"]
  note b = dead_zone_adjustment [of "0.20" trigger_example 0 "pad 0 1 [] [0, 0, 0, 0, 0.10, 0]"]
  have ev: "axisChanges (new_events trigger_example
     (processGamepadInput 0 (pad 0 1 [] [0, 0, 0, 0, 0.10, 0]) trigger_example)) =
   [\<lparr>ac_index = 4, ac_value = 0, ac_rawValue = 0.10, ac_name = ''LT'', ac_timestamp = 1\<rparr>]"
    unfolding trigger_example_events by simp
  have len: "(4::nat) < length (axes (pad 0 1 [] [0, 0, 0, 0, 0.10, 0]))"
    by (simp add: pad_def)
  have ax: "axes (pad 0 1 [] [0, 0, 0, 0, 0.10, 0]) ! 4 = 0.10"
    by (simp add: pad_def)
  have h1: "\<bar>0.10 :: real\<bar> \<le> 0.15" and h2: "\<bar>0.20 :: real\<bar> > 0.15" by simp_all
  have d1: "deadZone 0.10 = 0"
    by (rule a [THEN conjunct1, THEN mp, OF h1])
  have d2: "deadZone 0.20 = 0.20"
    by (rule b [THEN conjunct2, THEN conjunct1, THEN mp, OF h2])
  have "\<forall>p \<in> set (axisChanges (new_events trigger_example
        (processGamepadInput 0 (pad 0 1 [] [0, 0, 0, 0, 0.10, 0]) trigger_example))).
      ac_index p < length (axes (pad 0 1 [] [0, 0, 0, 0, 0.10, 0])) \<and>
      ac_rawValue p = axes (pad 0 1 [] [0, 0, 0, 0, 0.10, 0]) ! ac_index p \<and>
      ac_value p = deadZone (ac_rawValue p)"
    by (rule a [THEN conjunct2, THEN conjunct2, THEN conjunct2, THEN conjunct2, THEN conjunct1])
  then have d3: "deadZone 0.10 =
      ac_value \<lparr>ac_index = 4, ac_value = 0, ac_rawValue = 0.10, ac_name = ''LT'', ac_timestamp = 1\<rparr>"
    unfolding ev by simp
  have "\<forall>i < length (axes (pad 0 1 [] [0, 0, 0, 0, 0.10, 0])).
      ae_rawValue (gs_axes (getGamepadState (pad 0 1 [] [0, 0, 0, 0, 0.10, 0])) ! i) =
        axes (pad 0 1 [] [0, 0, 0, 0, 0.10, 0]) ! i \<and>
      ae_value (gs_axes (getGamepadState (pad 0 1 [] [0, 0, 0, 0, 0.10, 0])) ! i) =
        deadZone (axes (pad 0 1 [] [0, 0, 0, 0, 0.10, 0]) ! i)"
    by (rule a [THEN conjunct2, THEN conjunct2, THEN conjunct2, THEN conjunct2, THEN conjunct2])
  with len have "ae_value (gs_axes (getGamepadState (pad 0 1 [] [0, 0, 0, 0, 0.10, 0])) ! 4) =
      deadZone (axes (pad 0 1 [] [0, 0, 0, 0, 0.10, 0]) ! 4)" by blast
  then have d4: "ae_value (gs_axes (getGamepadState (pad 0 1 [] [0, 0, 0, 0, 0.10, 0])) ! 4) = 0"
    unfolding ax d1 .
  show ?thesis
    by (intro conjI) (rule h1 d1 h2 d2 ev d3 len d4)+
qed

text \<open>
  C3. In a sampling pass an axis-change event is emitted for the axis \<open>i\<close> if and only if
  the absolute difference between the dead-zone-adjusted current value and the
  dead-zone-adjusted previous value exceeds 0.02, where the adjustment of a value is 0 if
  its magnitude is at most 0.15 and the value otherwise. The event goes to the
  axis-change slot: its handler, if one is registered, is called once, with the axis
  index, the adjusted value, the raw value, the name of the axis and the timestamp of the
  device. After the value 0.20, the value 0.21 gives no event and the value 0.23 gives
  one; after 0.05, the value 0.10 gives none, both being in the dead zone; after 0.14,
  the value 0.16 gives one, and after 0.5, the value 0.10 gives one with the value 0.
\<close>

theorem axis_change_threshold:
  assumes "i < length (axes gp)"
  shows "axisChangesAt i (new_events m (processGamepadInput idx gp m)) =
     (let current = axes gp ! i;
          previous = storedAxis m idx i;
          adjusted = (if \<bar>current\<bar> \<le> 0.15 then 0 else current);
          adjustedPrevious = (if \<bar>previous\<bar> \<le> 0.15 then 0 else previous)
      in if \<bar>adjusted - adjustedPrevious\<bar> > 0.02
         then (if onAxisChange (callbacks m)
               then [\<lparr>ac_index = i, ac_value = adjusted, ac_rawValue = current,
                      ac_name = getAxisName idx i, ac_timestamp = timestamp gp\<rparr>]
               else [])
         else [])"
  using assms
  by (simp add: axisChangesAt_processGamepadInput deadZone_explicit Let_def)

theorem axis_change_threshold_witness:
  "onAxisChange (callbacks (axis_example_at 0.20)) \<and>
   storedAxis (axis_example_at 0.20) 0 0 = 0.20 \<and>
   axisChangesAt 0 (new_events (axis_example_at 0.20)
      (processGamepadInput 0 (pad 0 1 [] [0.21]) (axis_example_at 0.20))) = [] \<and>
   axisChangesAt 0 (new_events (axis_example_at 0.20)
      (processGamepadInput 0 (pad 0 1 [] [0.23]) (axis_example_at 0.20))) =
     [\<lparr>ac_index = 0, ac_value = 0.23, ac_rawValue = 0.23, ac_name = ''LS-X'',
       ac_timestamp = 1\<rparr>] \<and>
   storedAxis (axis_example_at 0.05) 0 0 = 0.05 \<and>
   axisChangesAt 0 (new_events (axis_example_at 0.05)
      (processGamepadInput 0 (pad 0 1 [] [0.10]) (axis_example_at 0.05))) = [] \<and>
   storedAxis (axis_example_at 0.14) 0 0 = 0.14 \<and>
   axisChangesAt 0 (new_events (axis_example_at 0.14)
      (processGamepadInput 0 (pad 0 1 [] [0.16]) (axis_example_at 0.14))) =
     [\<lparr>ac_index = 0, ac_value = 0.16, ac_rawValue = 0.16, ac_name = ''LS-X'',
       ac_timestamp = 1\<rparr>] \<and>
   storedAxis (axis_example_at 0.5) 0 0 = 0.5 \<and>
   axisChangesAt 0 (new_events (axis_example_at 0.5)
      (processGamepadInput 0 (pad 0 1 [] [0.10]) (axis_example_at 0.5))) =
     [\<lparr>ac_index = 0, ac_value = 0, ac_rawValue = 0.10, ac_name = ''LS-X'',
       ac_timestamp = 1\<rparr>]"
proof -
  have c: "onAxisChange (callbacks (axis_example_at w))" for w
    by (simp add: axis_example_at_def axis_example_def)
  have len: "(0::nat) < length (axes (pad 0 t [] [v]))" for t v
    by (simp add: pad_def)
  have v: "axes (pad 0 t [] [v]) ! 0 = v" "timestamp (pad 0 t [] [v]) = t" for t v
    by (simp_all add: pad_def)
  have s: "storedAxis (axis_example_at w) 0 0 = w" for w
    by (simp add: axis_example_at_def storedAxis_processGamepadInput pad_def)
  have n: "getAxisName 0 0 = ''LS-X''"
    by code_simp
  note t = axis_change_threshold [where idx = 0 and i = 0, OF len, unfolded Let_def]
  have a1: "axisChangesAt 0 (new_events (axis_example_at 0.20)
      (processGamepadInput 0 (pad 0 1 [] [0.21]) (axis_example_at 0.20))) = []"
    using t [where m = "axis_example_at 0.20" and ?v1 = "0.21" and ?t1 = 1]
    by (simp add: v s c n)
  have a2: "axisChangesAt 0 (new_events (axis_example_at 0.20)
      (processGamepadInput 0 (pad 0 1 [] [0.23]) (axis_example_at 0.20))) =
     [\<lparr>ac_index = 0, ac_value = 0.23, ac_rawValue = 0.23, ac_name = ''LS-X'',
       ac_timestamp = 1\<rparr>]"
    using t [where m = "axis_example_at 0.20" and ?v1 = "0.23" and ?t1 = 1]
    by (simp add: v s c n)
  have a3: "axisChangesAt 0 (new_events (axis_example_at 0.05)
      (processGamepadInput 0 (pad 0 1 [] [0.10]) (axis_example_at 0.05))) = []"
    using t [where m = "axis_example_at 0.05" and ?v1 = "0.10" and ?t1 = 1]
    by (simp add: v s c n)
  have a4: "axisChangesAt 0 (new_events (axis_example_at 0.14)
      (processGamepadInput 0 (pad 0 1 [] [0.16]) (axis_example_at 0.14))) =
     [\<lparr>ac_index = 0, ac_value = 0.16, ac_rawValue = 0.16, ac_name = ''LS-X'',
       ac_timestamp = 1\<rparr>]"
    using t [where m = "axis_example_at 0.14" and ?v1 = "0.16" and ?t1 = 1]
    by (simp add: v s c n)
  have a5: "axisChangesAt 0 (new_events (axis_example_at 0.5)
      (processGamepadInput 0 (pad 0 1 [] [0.10]) (axis_example_at 0.5))) =
     [\<lparr>ac_index = 0, ac_value = 0, ac_rawValue = 0.10, ac_name = ''LS-X'',
       ac_timestamp = 1\<rparr>]"
    using t [where m = "axis_example_at 0.5" and ?v1 = "0.10" and ?t1 = 1]
    by (simp add: v s c n)
  show ?thesis
    by (intro conjI) (rule c s a1 a2 a3 a4 a5)+
qed

text \<open>
  C4. In a sampling pass, for every button \<open>i\<close> of the frame: a press event is emitted if
  and only if the stored \<open>pressed\<close> is false and the current one is true, a release event
  if and only if the stored one is true and the current one is false, so none is emitted
  when the boolean is unchanged, whatever the analog value; and the stored \<open>pressed\<close> and
  \<open>value\<close> are overwritten with the current ones. An event goes to its slot: the handler,
  if one is registered, is called once. Five passes whose frames have \<open>pressed\<close> false,
  false, true, true, false for a button stored as released give exactly one press event,
  for the third frame, and exactly one release event, for the fifth.
\<close>

theorem button_edge_detection:
   "(i < length (buttons gp) \<longrightarrow>
      pressesAt i (new_events m (processGamepadInput idx gp m)) =
        (if \<not> pressed (storedButton m idx i) \<and> pressed (buttons gp ! i)
         then (if onButtonPress (callbacks m)
               then [\<lparr>bp_index = i, bp_button = getButtonName idx i,
                      bp_value = value (buttons gp ! i), bp_timestamp = timestamp gp\<rparr>]
               else [])
         else []) \<and>
      releasesAt i (new_events m (processGamepadInput idx gp m)) =
        (if pressed (storedButton m idx i) \<and> \<not> pressed (buttons gp ! i)
         then (if onButtonRelease (callbacks m)
               then [\<lparr>br_index = i, br_button = getButtonName idx i, br_timestamp = timestamp gp\<rparr>]
               else [])
         else []) \<and>
      storedButton (processGamepadInput idx gp m) idx i =
        \<lparr>pressed = pressed (buttons gp ! i), value = value (buttons gp ! i)\<rparr>) \<and>
    (\<not> pressed (storedButton m idx i) \<and>
     i < length (buttons g1) \<and> i < length (buttons g2) \<and> i < length (buttons g3) \<and>
     i < length (buttons g4) \<and> i < length (buttons g5) \<and>
     map (\<lambda>g. pressed (buttons g ! i)) [g1, g2, g3, g4, g5] = [False, False, True, True, False] \<longrightarrow>
      pressesAt i (new_events m (samplePasses idx [g1, g2, g3, g4, g5] m)) =
        (if onButtonPress (callbacks m)
         then [\<lparr>bp_index = i, bp_button = getButtonName idx i,
                bp_value = value (buttons g3 ! i), bp_timestamp = timestamp g3\<rparr>]
         else []) \<and>
      releasesAt i (new_events m (samplePasses idx [g1, g2, g3, g4, g5] m)) =
        (if onButtonRelease (callbacks m)
         then [\<lparr>br_index = i, br_button = getButtonName idx i, br_timestamp = timestamp g5\<rparr>]
         else []))"
proof (intro conjI impI)
  assume "i < length (buttons gp)"
  then show "pressesAt i (new_events m (processGamepadInput idx gp m)) =
        (if \<not> pressed (storedButton m idx i) \<and> pressed (buttons gp ! i)
         then (if onButtonPress (callbacks m)
               then [\<lparr>bp_index = i, bp_button = getButtonName idx i,
                      bp_value = value (buttons gp ! i), bp_timestamp = timestamp gp\<rparr>]
               else [])
         else [])"
    by (simp add: pressesAt_processGamepadInput)
next
  assume "i < length (buttons gp)"
  then show "releasesAt i (new_events m (processGamepadInput idx gp m)) =
        (if pressed (storedButton m idx i) \<and> \<not> pressed (buttons gp ! i)
         then (if onButtonRelease (callbacks m)
               then [\<lparr>br_index = i, br_button = getButtonName idx i, br_timestamp = timestamp gp\<rparr>]
               else [])
         else [])"
    by (simp add: releasesAt_processGamepadInput)
next
  assume "i < length (buttons gp)"
  then show "storedButton (processGamepadInput idx gp m) idx i =
        \<lparr>pressed = pressed (buttons gp ! i), value = value (buttons gp ! i)\<rparr>"
    by (simp add: storedButton_processGamepadInput)
next
  assume a: "\<not> pressed (storedButton m idx i) \<and>
     i < length (buttons g1) \<and> i < length (buttons g2) \<and> i < length (buttons g3) \<and>
     i < length (buttons g4) \<and> i < length (buttons g5) \<and>
     map (\<lambda>g. pressed (buttons g ! i)) [g1, g2, g3, g4, g5] = [False, False, True, True, False]"
  then show "pressesAt i (new_events m (samplePasses idx [g1, g2, g3, g4, g5] m)) =
        (if onButtonPress (callbacks m)
         then [\<lparr>bp_index = i, bp_button = getButtonName idx i,
                bp_value = value (buttons g3 ! i), bp_timestamp = timestamp g3\<rparr>]
         else [])"
    using five_samples(1) [of m idx i g1 g2 g3 g4 g5] by simp
  from a show "releasesAt i (new_events m (samplePasses idx [g1, g2, g3, g4, g5] m)) =
        (if onButtonRelease (callbacks m)
         then [\<lparr>br_index = i, br_button = getButtonName idx i, br_timestamp = timestamp g5\<rparr>]
         else [])"
    using five_samples(2) [of m idx i g1 g2 g3 g4 g5] by simp
qed

theorem button_edge_detection_witness:
  "onButtonPress (callbacks button_example) \<and> onButtonRelease (callbacks button_example) \<and>
   \<not> pressed (storedButton button_example 0 0) \<and>
   pressesAt 0 (new_events button_example
     (processGamepadInput 0 (button_frame 1 False 0.4) button_example)) = [] \<and>
   releasesAt 0 (new_events button_example
     (processGamepadInput 0 (button_frame 1 False 0.4) button_example)) = [] \<and>
   storedButton (processGamepadInput 0 (button_frame 1 False 0.4) button_example) 0 0
     = \<lparr>pressed = False, value = 0.4\<rparr> \<and>
   pressesAt 0 (new_events button_example (samplePasses 0
      [button_frame 1 False 0, button_frame 2 False 0, button_frame 3 True 1,
       button_frame 4 True 1, button_frame 5 False 0] button_example)) =
     [\<lparr>bp_index = 0, bp_button = ''A'', bp_value = 1, bp_timestamp = 3\<rparr>] \<and>
   releasesAt 0 (new_events button_example (samplePasses 0
      [button_frame 1 False 0, button_frame 2 False 0, button_frame 3 True 1,
       button_frame 4 True 1, button_frame 5 False 0] button_example)) =
     [\<lparr>br_index = 0, br_button = ''A'', br_timestamp = 5\<rparr>]"
proof -
  have h: "onButtonPress (callbacks button_example)" "onButtonRelease (callbacks button_example)"
    by code_simp+
  have s0: "\<not> pressed (storedButton button_example 0 0)"
    by code_simp
  have len: "buttons (button_frame t p v) \<noteq> []" for t p v
    by (simp add: button_frame_def pad_def)
  have at: "buttons (button_frame t p v) ! 0 = \<lparr>pressed = p, value = v\<rparr>"
    "timestamp (button_frame t p v) = t" for t p v
    by (simp_all add: button_frame_def pad_def)
  have name: "getButtonName 0 0 = ''A''"
    by code_simp
  note t = button_edge_detection [where m = button_example and i = 0 and idx = 0
      and gp = "button_frame 1 False 0.4"
      and ?g1.0 = "button_frame 1 False 0" and ?g2.0 = "button_frame 2 False 0"
      and ?g3.0 = "button_frame 3 True 1" and ?g4.0 = "button_frame 4 True 1"
      and ?g5.0 = "button_frame 5 False 0"]
  from t h s0 show ?thesis
    by (simp add: at len name)
qed

text \<open>
  C7. After a sampling pass, the stored value of every axis of the frame is the raw value
  of the sample, not the dead-zone-adjusted one, and the next pass computes the
  adjustment of that stored raw value anew for its comparison.
\<close>

theorem stored_axis_is_raw:
  assumes "i < length (axes gp)"
  shows "(\<exists>xs. map_get (axisStates (processGamepadInput idx gp m)) idx = Some xs \<and>
            i < length xs \<and> xs ! i = axes gp ! i) \<and>
    storedAxis (processGamepadInput idx gp m) idx i = axes gp ! i \<and>
    (i < length (axes gp') \<longrightarrow>
       axisChangesAt i (new_events (processGamepadInput idx gp m)
          (processGamepadInput idx gp' (processGamepadInput idx gp m))) =
        (if onAxisChange (callbacks m) \<and>
            \<bar>deadZone (axes gp' ! i) - deadZone (axes gp ! i)\<bar> > 0.02
         then [\<lparr>ac_index = i, ac_value = deadZone (axes gp' ! i), ac_rawValue = axes gp' ! i,
                ac_name = getAxisName idx i, ac_timestamp = timestamp gp'\<rparr>]
         else []))"
proof (intro conjI impI)
  from axisStates_processGamepadInput [of idx gp m] assms
  show "\<exists>xs. map_get (axisStates (processGamepadInput idx gp m)) idx = Some xs \<and>
            i < length xs \<and> xs ! i = axes gp ! i"
    by fastforce
next
  from assms show "storedAxis (processGamepadInput idx gp m) idx i = axes gp ! i"
    by (simp add: storedAxis_processGamepadInput)
next
  assume "i < length (axes gp')"
  with assms show "axisChangesAt i (new_events (processGamepadInput idx gp m)
          (processGamepadInput idx gp' (processGamepadInput idx gp m))) =
        (if onAxisChange (callbacks m) \<and>
            \<bar>deadZone (axes gp' ! i) - deadZone (axes gp ! i)\<bar> > 0.02
         then [\<lparr>ac_index = i, ac_value = deadZone (axes gp' ! i), ac_rawValue = axes gp' ! i,
                ac_name = getAxisName idx i, ac_timestamp = timestamp gp'\<rparr>]
         else [])"
    by (simp add: axisChangesAt_processGamepadInput storedAxis_processGamepadInput)
qed

theorem stored_axis_is_raw_witness:
  "(0::nat) < length (axes (pad 0 1 [] [0.10])) \<and>
   map_get (axisStates (processGamepadInput 0 (pad 0 1 [] [0.10]) axis_example)) 0 = Some [0.10] \<and>
   storedAxis (processGamepadInput 0 (pad 0 1 [] [0.10]) axis_example) 0 0 = 0.10 \<and>
   deadZone 0.10 = 0 \<and>
   axisChangesAt 0 (new_events (processGamepadInput 0 (pad 0 1 [] [0.10]) axis_example)
      (processGamepadInput 0 (pad 0 2 [] [0.20])
         (processGamepadInput 0 (pad 0 1 [] [0.10]) axis_example))) =
     [\<lparr>ac_index = 0, ac_value = 0.20, ac_rawValue = 0.20, ac_name = ''LS-X'', ac_timestamp = 2\<rparr>]"
proof -
  have len: "(0::nat) < length (axes (pad 0 t [] [v]))" for t v
    by (simp add: pad_def)
  note t = stored_axis_is_raw [where i = 0 and gp = "pad 0 1 [] [0.10]" and idx = 0
      and m = axis_example and gp' = "pad 0 2 [] [0.20]", OF len]
  have e: "map_get (axisStates (processGamepadInput 0 (pad 0 1 [] [0.10]) axis_example)) 0 = Some [0.10]"
    by code_simp
  have c: "onAxisChange (callbacks axis_example)"
    by code_simp
  have v: "axes (pad 0 t [] [v]) ! 0 = v" "timestamp (pad 0 t [] [v]) = t" for t v
    by (simp_all add: pad_def)
  have d: "deadZone 0.10 = 0" "deadZone 0.20 = 0.20" "getAxisName 0 0 = ''LS-X''"
    by code_simp+
  have g: "\<bar>0.20 - (0::real)\<bar> > 0.02"
    by simp
  have s: "storedAxis (processGamepadInput 0 (pad 0 1 [] [0.10]) axis_example) 0 0 = 0.10"
    using t [THEN conjunct2, THEN conjunct1] unfolding v .
  have "axisChangesAt 0 (new_events (processGamepadInput 0 (pad 0 1 [] [0.10]) axis_example)
      (processGamepadInput 0 (pad 0 2 [] [0.20])
         (processGamepadInput 0 (pad 0 1 [] [0.10]) axis_example))) =
        (if onAxisChange (callbacks axis_example) \<and>
            \<bar>deadZone (axes (pad 0 2 [] [0.20]) ! 0) - deadZone (axes (pad 0 1 [] [0.10]) ! 0)\<bar> > 0.02
         then [\<lparr>ac_index = 0, ac_value = deadZone (axes (pad 0 2 [] [0.20]) ! 0),
                ac_rawValue = axes (pad 0 2 [] [0.20]) ! 0,
                ac_name = getAxisName 0 0, ac_timestamp = timestamp (pad 0 2 [] [0.20])\<rparr>]
         else [])"
    by (rule t [THEN conjunct2, THEN conjunct2, THEN mp, OF len])
  then have a: "axisChangesAt 0 (new_events (processGamepadInput 0 (pad 0 1 [] [0.10]) axis_example)
      (processGamepadInput 0 (pad 0 2 [] [0.20])
         (processGamepadInput 0 (pad 0 1 [] [0.10]) axis_example))) =
     [\<lparr>ac_index = 0, ac_value = 0.20, ac_rawValue = 0.20, ac_name = ''LS-X'', ac_timestamp = 2\<rparr>]"
    unfolding v d using c g by simp
  show ?thesis
    by (intro conjI) (rule len e s d a)+
qed

text \<open>
  C5. A disconnect notification for the device with index \<open>i\<close> removes the device and its
  button and axis state collections and leaves the other entries in their order; if \<open>i\<close>
  was the active device, the active device becomes the first remaining key of the
  registry, or \<open>null\<close> if none remains, and otherwise it stays. From the registry with the
  keys 0, 1, 2 and the active device 1, disconnecting 1 makes 0 the active device, and
  disconnecting all three, in any order, leaves no active device and \<open>isConnected\<close> false.
\<close>

theorem disconnect_reelects_active:
  "gamepads (handleGamepadDisconnected gp m) = filter (\<lambda>e. fst e \<noteq> index gp) (gamepads m) \<and>
   buttonStates (handleGamepadDisconnected gp m) =
     filter (\<lambda>e. fst e \<noteq> index gp) (buttonStates m) \<and>
   axisStates (handleGamepadDisconnected gp m) =
     filter (\<lambda>e. fst e \<noteq> index gp) (axisStates m) \<and>
   \<not> map_has (gamepads (handleGamepadDisconnected gp m)) (index gp) \<and>
   \<not> map_has (buttonStates (handleGamepadDisconnected gp m)) (index gp) \<and>
   \<not> map_has (axisStates (handleGamepadDisconnected gp m)) (index gp) \<and>
   (activeGamepad m = Some (index gp) \<longrightarrow>
      activeGamepad (handleGamepadDisconnected gp m) =
        (case map_keys (gamepads (handleGamepadDisconnected gp m)) of
           [] \<Rightarrow> None | k # ks \<Rightarrow> Some k)) \<and>
   (activeGamepad m \<noteq> Some (index gp) \<longrightarrow>
      activeGamepad (handleGamepadDisconnected gp m) = activeGamepad m) \<and>
   (map_keys (gamepads m) = [0, 1, 2] \<and> activeGamepad m = Some 1 \<longrightarrow>
      (index gp = 1 \<longrightarrow> activeGamepad (handleGamepadDisconnected gp m) = Some 0) \<and>
      (set [index a, index b, index c] = {0, 1, 2} \<longrightarrow>
         activeGamepad (handleGamepadDisconnected c
           (handleGamepadDisconnected b (handleGamepadDisconnected a m))) = None \<and>
         \<not> isConnected (handleGamepadDisconnected c
           (handleGamepadDisconnected b (handleGamepadDisconnected a m)))))"
proof (intro conjI impI)
  assume "map_keys (gamepads m) = [0, 1, 2] \<and> activeGamepad m = Some 1" and "index gp = 1"
  then show "activeGamepad (handleGamepadDisconnected gp m) = Some 0"
    by (simp add: disconnected_active map_keys_map_delete)
next
  assume a: "map_keys (gamepads m) = [0, 1, 2] \<and> activeGamepad m = Some 1"
    and b: "set [index a, index b, index c] = {0, 1, 2}"
  from a b show n: "activeGamepad (handleGamepadDisconnected c
           (handleGamepadDisconnected b (handleGamepadDisconnected a m))) = None"
    by (intro disconnect_all_three) simp_all
  then show "\<not> isConnected (handleGamepadDisconnected c
           (handleGamepadDisconnected b (handleGamepadDisconnected a m)))"
    by (simp add: isConnected_def)
qed (simp_all add: disconnected_active map_delete_def [symmetric])

theorem disconnect_reelects_active_witness:
  "map_keys (gamepads registry_example) = [0, 1, 2] \<and>
   activeGamepad registry_example = Some 1 \<and>
   map_keys (gamepads (handleGamepadDisconnected (pad 1 1 [] []) registry_example)) = [0, 2] \<and>
   activeGamepad (handleGamepadDisconnected (pad 1 1 [] []) registry_example) = Some 0 \<and>
   activeGamepad (handleGamepadDisconnected (pad 2 1 [] []) registry_example) = Some 1 \<and>
   activeGamepad (handleGamepadDisconnected (pad 2 3 [] [])
     (handleGamepadDisconnected (pad 0 2 [] [])
        (handleGamepadDisconnected (pad 1 1 [] []) registry_example))) = None \<and>
   \<not> isConnected (handleGamepadDisconnected (pad 2 3 [] [])
     (handleGamepadDisconnected (pad 0 2 [] [])
        (handleGamepadDisconnected (pad 1 1 [] []) registry_example)))"
proof -
  have k: "map_keys (gamepads registry_example) = [0, 1, 2]"
    by code_simp
  have a: "activeGamepad registry_example = Some 1"
    by code_simp
  have k': "map_keys (gamepads (handleGamepadDisconnected (pad 1 1 [] []) registry_example)) = [0, 2]"
    by code_simp
  have i: "index (pad 1 1 [] []) = 1" "index (pad 0 2 [] []) = 0" "index (pad 2 3 [] []) = 2"
    by (simp_all add: pad_def)
  have s: "set [index (pad 1 1 [] []), index (pad 0 2 [] []), index (pad 2 3 [] [])] = {0, 1, 2}"
    unfolding i by auto
  note t = disconnect_reelects_active [where m = registry_example and gp = "pad 1 1 [] []"
      and a = "pad 1 1 [] []" and b = "pad 0 2 [] []" and c = "pad 2 3 [] []"]
  have i': "index (pad 2 1 [] []) = 2"
    by (simp add: pad_def)
  have u: "activeGamepad (handleGamepadDisconnected (pad 2 1 [] []) registry_example) = Some 1"
    using disconnect_reelects_active [where m = registry_example and gp = "pad 2 1 [] []"] a i'
    by simp
  from t k a i(1) s show ?thesis
    using k' u by blast
qed

text \<open>
  C6. Every operation (connect and disconnect notifications, frames with their sampling
  pass and its synthesized connects, \<open>start\<close>, \<open>stop\<close>, registrations) keeps the invariant
  that the active device, if set, is a key of the device registry; it holds after the
  constructor, hence after every run of a manager. The active device is one field, so at
  most one device is active.
\<close>

theorem active_device_registered:
  "(active_registered m \<longrightarrow> active_registered (run ops m)) \<and>
   active_registered (run ops (constructor nav)) \<and>
   (\<forall>a. activeGamepad (run ops (constructor nav)) = Some a \<longrightarrow>
      a \<in> set (map_keys (gamepads (run ops (constructor nav)))) \<and>
      (\<forall>b. activeGamepad (run ops (constructor nav)) = Some b \<longrightarrow> b = a))"
proof (intro conjI impI allI)
  show r: "active_registered (run ops (constructor nav))"
    by (intro active_registered_run active_registered_constructor)
  fix a assume "activeGamepad (run ops (constructor nav)) = Some a"
  with r show "a \<in> set (map_keys (gamepads (run ops (constructor nav))))"
    by (simp add: active_registered_iff map_has_keys)
qed (simp_all add: active_registered_run)

theorem active_device_registered_witness:
  "active_registered (constructor []) \<and>
   map_keys (gamepads (run run_example (constructor []))) = [0, 2] \<and>
   activeGamepad (run run_example (constructor [])) = Some 2 \<and>
   active_registered (run run_example (constructor []))"
proof -
  have c: "active_registered (constructor [])"
    by code_simp
  have k: "map_keys (gamepads (run run_example (constructor []))) = [0, 2]"
    by code_simp
  have a: "activeGamepad (run run_example (constructor [])) = Some 2"
    by code_simp
  note t = active_device_registered [where m = "constructor []" and ops = run_example and nav = "[]"]
  from t c k a show ?thesis
    by blast
qed

text \<open>
  C8. The promise of \<open>testVibration\<close> is never rejected, and it is fulfilled with \<open>false\<close>
  when there is no active device (the field is falsy), when the host has no device in the
  slot of the active device, when the active device has no vibration actuator, and when
  the platform rejects the call that is made, that is the \<open>playEffect\<close> call with the
  options of the requested pattern; when that call is fulfilled on an active device with
  an actuator, the promise is fulfilled with \<open>true\<close>. The options are those of the table
  for \<open>light\<close>, \<open>medium\<close> and \<open>strong\<close>, undefined members for a name that the table
  inherits from \<open>Object.prototype\<close>, and those of \<open>medium\<close> for every other name.
\<close>

theorem testVibration_fails_gracefully:
  "(\<forall>e. testVibration play nav pattern m \<noteq> Inl e) \<and>
   (\<not> truthy (activeGamepad m) \<longrightarrow> testVibration play nav pattern m = Inr False) \<and>
   (\<forall>a. activeGamepad m = Some a \<and> nav_at nav a \<in> {Null, Undefined} \<longrightarrow>
      testVibration play nav pattern m = Inr False) \<and>
   (\<forall>a gp. activeGamepad m = Some a \<and> nav_at nav a = Object gp \<and> vibrationActuator gp = None \<longrightarrow>
      testVibration play nav pattern m = Inr False) \<and>
   (\<forall>e. play (requestedEffect pattern) = Inl e \<longrightarrow>
      testVibration play nav pattern m = Inr False) \<and>
   (\<forall>a gp act. truthy (activeGamepad m) \<and> activeGamepad m = Some a \<and>
      nav_at nav a = Object gp \<and> vibrationActuator gp = Some act \<and>
      play (requestedEffect pattern) = Inr () \<longrightarrow>
      testVibration play nav pattern m = Inr True) \<and>
   requestedEffect ''light'' =
     \<lparr>startDelay = 0, duration = Some 100, strongMagnitude = Some 0.3,
      weakMagnitude = Some 0.2\<rparr> \<and>
   requestedEffect ''medium'' =
     \<lparr>startDelay = 0, duration = Some 200, strongMagnitude = Some 0.6,
      weakMagnitude = Some 0.4\<rparr> \<and>
   requestedEffect ''strong'' =
     \<lparr>startDelay = 0, duration = Some 300, strongMagnitude = Some 1.0,
      weakMagnitude = Some 0.8\<rparr> \<and>
   (pattern \<in> set objectPrototypeNames \<longrightarrow>
      requestedEffect pattern =
        \<lparr>startDelay = 0, duration = None, strongMagnitude = None, weakMagnitude = None\<rparr>) \<and>
   (pattern \<notin> {''light'', ''medium'', ''strong''} \<and> pattern \<notin> set objectPrototypeNames \<longrightarrow>
      requestedEffect pattern = requestedEffect ''medium'')"
proof (intro conjI impI allI)
  fix e
  show "testVibration play nav pattern m \<noteq> Inl e"
    by (rule testVibration_settles)
next
  fix e assume "play (requestedEffect pattern) = Inl e"
  then show "testVibration play nav pattern m = Inr False"
    by (rule testVibration_rejected)
next
  fix a gp act
  assume "truthy (activeGamepad m) \<and> activeGamepad m = Some a \<and>
      nav_at nav a = Object gp \<and> vibrationActuator gp = Some act \<and>
      play (requestedEffect pattern) = Inr ()"
  then show "testVibration play nav pattern m = Inr True"
    using testVibration_call [of m a nav gp act play pattern] by auto
next
  assume "pattern \<in> set objectPrototypeNames"
  then show "requestedEffect pattern =
        \<lparr>startDelay = 0, duration = None, strongMagnitude = None, weakMagnitude = None\<rparr>"
    by (rule requestedEffect_inherited)
next
  assume "pattern \<notin> {''light'', ''medium'', ''strong''} \<and> pattern \<notin> set objectPrototypeNames"
  then show "requestedEffect pattern = requestedEffect ''medium''"
    by (simp add: requestedEffect_other requestedEffect_own)
qed (auto simp: testVibration_def requestedEffect_own)


theorem testVibration_fails_gracefully_witness:
  "activeGamepad (constructor []) = None \<and>
   testVibration (\<lambda>q. Inr ()) [Some (rumble_pad 0)] ''medium'' (constructor []) = Inr False \<and>
   activeGamepad registry_example = Some 1 \<and>
   testVibration (\<lambda>q. Inr ()) [Some (rumble_pad 0)] ''medium'' registry_example = Inr False \<and>
   testVibration (\<lambda>q. Inr ()) [None, Some (pad 1 0 [] [])] ''medium'' registry_example = Inr False \<and>
   rejects_medium (requestedEffect ''medium'') = Inl (PlatformError ''rejected'') \<and>
   testVibration rejects_medium [None, Some (rumble_pad 1)] ''medium'' registry_example
     = Inr False \<and>
   rejects_medium (requestedEffect ''light'') = Inr () \<and>
   testVibration rejects_medium [None, Some (rumble_pad 1)] ''light'' registry_example
     = Inr True \<and>
   ''unknown'' \<notin> set objectPrototypeNames \<and>
   testVibration rejects_medium [None, Some (rumble_pad 1)] ''unknown'' registry_example
     = Inr False \<and>
   ''constructor'' \<in> set objectPrototypeNames \<and>
   rejects_undefined (requestedEffect ''constructor'') = Inl (PlatformError ''TypeError'') \<and>
   testVibration rejects_undefined [None, Some (rumble_pad 1)] ''constructor'' registry_example
     = Inr False \<and>
   testVibration rejects_medium [None, Some (rumble_pad 1)] ''constructor'' registry_example
     = Inr True"
proof -
  note t = testVibration_fails_gracefully
  have a0: "activeGamepad (constructor []) = None" and a1: "activeGamepad registry_example = Some 1"
    by code_simp+
  have tr: "truthy (activeGamepad registry_example)"
    by (simp add: a1)
  have n0: "nav_at [Some (rumble_pad 0)] 1 = Undefined"
    and n1: "nav_at [None, Some (pad 1 0 [] [])] 1 = Object (pad 1 0 [] [])"
    and v1: "vibrationActuator (pad 1 0 [] []) = None"
    and n2: "nav_at [None, Some (rumble_pad 1)] 1 = Object (rumble_pad 1)"
    and v2: "vibrationActuator (rumble_pad 1) = Some \<lparr>actuatorType = ''dual-rumble''\<rparr>"
    by code_simp+
  have u: "''unknown'' \<notin> set objectPrototypeNames" "''unknown'' \<notin> {''light'', ''medium'', ''strong''}"
    and c: "''constructor'' \<in> set objectPrototypeNames"
    by (simp_all add: objectPrototypeNames_def)
  have e_medium: "requestedEffect ''medium'' =
     \<lparr>startDelay = 0, duration = Some 200, strongMagnitude = Some 0.6, weakMagnitude = Some 0.4\<rparr>"
    and e_light: "requestedEffect ''light'' =
     \<lparr>startDelay = 0, duration = Some 100, strongMagnitude = Some 0.3, weakMagnitude = Some 0.2\<rparr>"
    using t [of "\<lambda>q. Inr ()" "[]" "''medium''" "constructor []"] by blast+
  have e_unknown: "requestedEffect ''unknown'' = requestedEffect ''medium''"
    using t [of "\<lambda>q. Inr ()" "[]" "''unknown''" "constructor []"] u by blast
  have e_constructor: "requestedEffect ''constructor'' =
     \<lparr>startDelay = 0, duration = None, strongMagnitude = None, weakMagnitude = None\<rparr>"
    using t [of "\<lambda>q. Inr ()" "[]" "''constructor''" "constructor []"] c by blast
  have r_medium: "rejects_medium (requestedEffect ''medium'') = Inl (PlatformError ''rejected'')"
    unfolding e_medium by (simp add: rejects_medium_def)
  have r_light: "rejects_medium (requestedEffect ''light'') = Inr ()"
    unfolding e_light by (simp add: rejects_medium_def)
  have r_unknown: "rejects_medium (requestedEffect ''unknown'') = Inl (PlatformError ''rejected'')"
    unfolding e_unknown by (rule r_medium)
  have r_constructor: "rejects_undefined (requestedEffect ''constructor'') = Inl (PlatformError ''TypeError'')"
    unfolding e_constructor by (simp add: rejects_undefined_def)
  have r_constructor': "rejects_medium (requestedEffect ''constructor'') = Inr ()"
    unfolding e_constructor by (simp add: rejects_medium_def)
  have t0: "testVibration (\<lambda>q. Inr ()) [Some (rumble_pad 0)] ''medium'' (constructor []) = Inr False"
    using t [of "\<lambda>q. Inr ()" "[Some (rumble_pad 0)]" "''medium''" "constructor []"] a0
    by simp
  have t1: "testVibration (\<lambda>q. Inr ()) [Some (rumble_pad 0)] ''medium'' registry_example = Inr False"
    using t [of "\<lambda>q. Inr ()" "[Some (rumble_pad 0)]" "''medium''" registry_example] a1 n0
    by simp
  have t2: "testVibration (\<lambda>q. Inr ()) [None, Some (pad 1 0 [] [])] ''medium'' registry_example
      = Inr False"
    using t [of "\<lambda>q. Inr ()" "[None, Some (pad 1 0 [] [])]" "''medium''" registry_example]
      a1 n1 v1
    by simp
  have t3: "testVibration rejects_medium [None, Some (rumble_pad 1)] ''medium'' registry_example
      = Inr False"
    using t [of rejects_medium "[None, Some (rumble_pad 1)]" "''medium''" registry_example]
      r_medium by blast
  have t4: "testVibration rejects_medium [None, Some (rumble_pad 1)] ''light'' registry_example
      = Inr True"
    using t [of rejects_medium "[None, Some (rumble_pad 1)]" "''light''" registry_example]
      tr a1 n2 v2 r_light by blast
  have t5: "testVibration rejects_medium [None, Some (rumble_pad 1)] ''unknown'' registry_example
      = Inr False"
    using t [of rejects_medium "[None, Some (rumble_pad 1)]" "''unknown''" registry_example]
      r_unknown by blast
  have t6: "testVibration rejects_undefined [None, Some (rumble_pad 1)] ''constructor''
      registry_example = Inr False"
    using t [of rejects_undefined "[None, Some (rumble_pad 1)]" "''constructor''" registry_example]
      r_constructor by blast
  have t7: "testVibration rejects_medium [None, Some (rumble_pad 1)] ''constructor''
      registry_example = Inr True"
    using t [of rejects_medium "[None, Some (rumble_pad 1)]" "''constructor''" registry_example]
      tr a1 n2 v2 r_constructor' by blast
  show ?thesis
    by (intro conjI) (rule a0 a1 t0 t1 t2 t3 t4 t5 t6 t7 r_medium r_light r_constructor u c)+
qed

text \<open>
  C9. \<open>start\<close> on a running manager changes nothing. In every run of a manager at most one
  frame request is pending, a second \<open>start\<close> adds none, and after one \<open>stop\<close> the
  manager is not running, no frame request is pending and no frame polls.
\<close>

theorem start_is_idempotent:
  "(isRunning m \<longrightarrow> start nav m = m) \<and>
   start nav' (start nav (run ops (constructor nav0))) = start nav (run ops (constructor nav0)) \<and>
   length (pendingFrames (start nav' (start nav (run ops (constructor nav0))))) \<le> 1 \<and>
   pendingFrames (stop (start nav' (start nav (run ops (constructor nav0))))) = [] \<and>
   \<not> isRunning (stop (start nav' (start nav (run ops (constructor nav0))))) \<and>
   (\<forall>h navf. frame h navf (stop (start nav' (start nav (run ops (constructor nav0))))) =
       stop (start nav' (start nav (run ops (constructor nav0)))))"
proof -
  let ?s = "start nav (run ops (constructor nav0))"
  have ok: "scheduler_ok ?s"
    by (intro scheduler_ok_start scheduler_ok_run scheduler_ok_constructor)
  have same: "start nav' ?s = ?s"
    by (simp add: start_running)
  show ?thesis
    unfolding same
    using stop_halts [OF ok] scheduler_ok_pending [OF ok]
    by (simp add: start_running)
qed

theorem start_is_idempotent_witness:
  "isRunning (constructor []) \<and> start [] (constructor []) = constructor [] \<and>
   pendingFrames (start [] (start [] (run [] (constructor [])))) = [1] \<and>
   pendingFrames (stop (start [] (start [] (run [] (constructor []))))) = [] \<and>
   frame 1 [] (stop (start [] (start [] (run [] (constructor []))))) =
     stop (start [] (start [] (run [] (constructor []))))"
proof -
  have r: "isRunning (constructor [])"
    by code_simp
  have p: "pendingFrames (start [] (start [] (run [] (constructor [])))) = [1]"
    by code_simp
  note t = start_is_idempotent [where m = "constructor []" and nav = "[]" and nav' = "[]"
      and ops = "[]" and ?nav0.0 = "[]"]
  from t r p show ?thesis
    by blast
qed

end
